theory Spec2Isabelle
  imports Complex_Main "HOL-Library.Multiset" "HOL-Library.Sublist"
begin

text \<open>
  A shallow embedding of the parallel agent manager (\<open>src/agent_manager.py\<close>: task
  construction, model selection, prompt construction, the synchronous and the
  asynchronous dispatch, aggregation) and of the token estimator
  (\<open>benchmarks/token_efficiency_analyzer.py\<close>). What the Python runtime decides is an
  argument of the functions: \<open>repr\<close> (the string form of a value that is not a
  string), \<open>clock\<close> (the measured durations) and \<open>order\<close> (the order in which the
  futures complete). A call that raises returns \<open>Inl\<close> of the exception. The worker is
  a function: a call of the worker that never returns is outside the model.
\<close>

section \<open>Python values, exceptions and string formatting\<close>

text \<open>
  The manager handles values of type \<open>Any\<close>: chunk payloads, worker replies and the
  aggregated content. The values that occur are \<open>None\<close>, strings, integers, lists and
  dictionaries with string keys. A dictionary is an association list in insertion order;
  a lookup takes the first binding of a key. A string is a list of characters with code
  points below 256, and \<open>length\<close> is Python's \<open>len\<close> on it.
\<close>

datatype pyval =
    PNone
  | PStr string
  | PInt int
  | PList "pyval list"
  | PDict "(string \<times> pyval) list"

type_synonym pydict = "(string \<times> pyval) list"

text \<open>
  An exception is an instance of \<open>Exception\<close> (the class that every handler of the source
  catches; \<open>KeyboardInterrupt\<close> and \<open>SystemExit\<close> lie outside it and are not modelled).
  The only thing the source does with a caught exception \<open>e\<close> is \<open>str(e)\<close>, which runs the
  exception's own \<open>__str__\<close>: it returns the message, or raises in turn.
\<close>

datatype pyexc =
    Exc string      \<comment> \<open>\<open>str(e)\<close> returns this message\<close>
  | BadStr pyexc    \<comment> \<open>\<open>str(e)\<close> raises this exception\<close>

fun str_exc :: "pyexc \<Rightarrow> pyexc + string" where
  "str_exc (Exc s) = Inr s"
| "str_exc (BadStr e) = Inl e"

text \<open>
  \<open>str(x)\<close> of a value: a string is its own string form; for every other value Python
  prints its \<open>repr\<close>, which the functions below take as the parameter \<open>repr\<close>.
\<close>

definition py_str :: "(pyval \<Rightarrow> string) \<Rightarrow> pyval \<Rightarrow> string" where
  "py_str repr v = (case v of PStr s \<Rightarrow> s | _ \<Rightarrow> repr v)"

text \<open>Decimal formatting of an integer, as an f-string field \<open>{n}\<close> prints it.\<close>

fun digits :: "nat \<Rightarrow> string" where
  "digits n =
     (if n < 10 then [''0123456789'' ! n]
      else digits (n div 10) @ [''0123456789'' ! (n mod 10)])"

declare digits.simps [simp del]

definition str_int :: "int \<Rightarrow> string" where
  "str_int i = (if i < 0 then CHR ''-'' # digits (nat (- i)) else digits (nat i))"

text \<open>\<open>sep.join(parts)\<close>.\<close>

fun join :: "string \<Rightarrow> string list \<Rightarrow> string" where
  "join sep [] = []"
| "join sep [x] = x"
| "join sep (x # y # ys) = x @ sep @ join sep (y # ys)"

section \<open>Floating-point numbers\<close>

text \<open>
  Python's \<open>float\<close> is the IEEE 754 double. A double is written here as a pair \<open>(m, e)\<close>
  of integers that stands for \<open>m * 2 ^ e\<close>, with the magnitude of \<open>m\<close> at most \<open>2 ^ 53\<close>.
  \<open>round53\<close> rounds \<open>m * 2 ^ e\<close>, for \<open>m\<close> not negative, to 53 significant bits, ties to
  even, which is what the conversion of an \<open>int\<close>, every multiplication and every
  addition do; \<open>round_signed\<close> extends it to a negative \<open>m\<close>. The numbers that occur (word
  counts, durations in milliseconds) are far from the range where a double overflows,
  so the exponent is not bounded. \<open>bit_length\<close> is \<open>int.bit_length\<close>.
\<close>

type_synonym double = "int \<times> int"

function bit_length :: "int \<Rightarrow> int" where
  "bit_length m = (if m \<le> 0 then 0 else bit_length (m div 2) + 1)"
  by pat_completeness auto
termination
  by (relation "measure nat") auto

declare bit_length.simps [simp del]

definition round53 :: "int \<Rightarrow> int \<Rightarrow> double" where
  "round53 m e =
     (let k = bit_length m - 53
      in if k \<le> 0 then (m, e)
         else let q = m div 2 ^ nat k;
                  r = m mod 2 ^ nat k;
                  half = 2 ^ (nat k - 1)
              in (if r < half then q
                  else if half < r then q + 1
                  else if even q then q else q + 1,
                  e + k))"

definition round_signed :: "int \<Rightarrow> int \<Rightarrow> double" where
  "round_signed m e =
     (if m < 0 then (- fst (round53 (- m) e), snd (round53 (- m) e)) else round53 m e)"

text \<open>
  \<open>x + y\<close> on doubles is the exact sum, rounded. \<open>sum(...)\<close> starts from \<open>0\<close> and adds the
  items from the left, so that every partial sum is rounded.
\<close>

definition fadd :: "double \<Rightarrow> double \<Rightarrow> double" where
  "fadd x y =
     (let e = min (snd x) (snd y)
      in round_signed (fst x * 2 ^ nat (snd x - e) + fst y * 2 ^ nat (snd y - e)) e)"

definition py_sum :: "double list \<Rightarrow> double" where
  "py_sum xs = foldl fadd (0, 0) xs"

section \<open>The data classes of \<open>agent_manager.py\<close>\<close>

record chunk_task =
  task_id :: int
  task_content :: pyval
  task_type :: string
  query :: "string option"
  metadata :: pydict

record result =
  chunk_id :: int
  content :: pyval
  processing_time_ms :: double
  model_used :: string
  error :: "string option"

text \<open>
  The LM worker \<open>llm_query_fn(prompt, model=model)\<close> returns a value or raises. It is a
  function of its two arguments: a deterministic worker.
\<close>

datatype outcome = Returns pyval | Raises pyexc

type_synonym worker = "string \<Rightarrow> string \<Rightarrow> outcome"

text \<open>
  The manager object. \<open>executor_shutdown\<close> is the state of \<open>self._executor\<close>, the pool
  that the asynchronous path submits to: \<open>cleanup\<close> shuts it down, and a pool that is
  shut down refuses every later submission with a \<open>RuntimeError\<close>.
\<close>

record manager =
  max_concurrent :: int
  llm_query_fn :: "worker option"
  executor_shutdown :: bool

text \<open>\<open>ThreadPoolExecutor(max_workers=n)\<close> raises \<open>ValueError\<close> unless \<open>n > 0\<close>.\<close>

definition pool_error :: pyexc where
  "pool_error = Exc ''max_workers must be greater than 0''"


definition cleanup :: "manager \<Rightarrow> manager" where
  "cleanup m = m\<lparr>executor_shutdown := True\<rparr>"

section \<open>Model selection and prompt construction\<close>

definition select_model :: "chunk_task \<Rightarrow> string" where
  "select_model task =
     (if task_type task = ''extraction'' then ''haiku''
      else if task_type task = ''analysis'' then ''sonnet''
      else if task_type task = ''synthesis'' then ''sonnet''
      else ''haiku'')"

text \<open>
  \<open>if task.query\<close> is Python truthiness: the query is present and not the empty string.
  \<open>str(task.content)[:10000]\<close> is \<open>take 10000\<close> of the string form.
\<close>

definition truthy :: "string option \<Rightarrow> string option" where
  "truthy q = (case q of None \<Rightarrow> None | Some s \<Rightarrow> if s = [] then None else Some s)"

definition build_prompt :: "(pyval \<Rightarrow> string) \<Rightarrow> chunk_task \<Rightarrow> string" where
  "build_prompt repr task =
     (case truthy (query task) of
        Some q \<Rightarrow>
          ''Process this chunk of data to answer the following query:\<newline>\<newline>Query: '' @ q
          @ ''\<newline>\<newline>Chunk '' @ str_int (task_id task) @ '':\<newline>''
          @ take 10000 (py_str repr (task_content task))
          @ ''\<newline>\<newline>Provide a concise response focusing only on information relevant to the query.''
      | None \<Rightarrow>
          ''Extract key information from this chunk:\<newline>\<newline>Chunk ''
          @ str_int (task_id task) @ '':\<newline>''
          @ take 10000 (py_str repr (task_content task))
          @ ''\<newline>\<newline>Provide a structured summary of the main points.'')"

section \<open>Processing one chunk\<close>

text \<open>
  \<open>_process_single_chunk\<close>. The argument \<open>ms\<close> is the duration the two readings of
  \<open>time.time()\<close> measure for this call. The \<open>try\<close> block covers the worker call; its
  handler builds the error Result from \<open>str(e)\<close>, and when that conversion raises, the
  new exception leaves the function (\<open>Inl\<close>): the future of this task then holds an
  exception instead of a Result.
\<close>

definition placeholder :: "(pyval \<Rightarrow> string) \<Rightarrow> chunk_task \<Rightarrow> string" where
  "placeholder repr task =
     ''[Processed chunk '' @ str_int (task_id task) @ '': ''
     @ str_int (int (length (py_str repr (task_content task)))) @ '' chars]''"

definition process_single_chunk ::
  "manager \<Rightarrow> (pyval \<Rightarrow> string) \<Rightarrow> double \<Rightarrow> chunk_task \<Rightarrow> pyexc + result" where
  "process_single_chunk m repr ms task =
     (case (case llm_query_fn m of
              None \<Rightarrow> Returns (PStr (placeholder repr task))
            | Some f \<Rightarrow> f (build_prompt repr task) (select_model task)) of
        Returns c \<Rightarrow>
          Inr \<lparr>chunk_id = task_id task, content = c, processing_time_ms = ms,
               model_used = select_model task, error = None\<rparr>
      | Raises e \<Rightarrow>
          (case str_exc e of
             Inl e' \<Rightarrow> Inl e'
           | Inr s \<Rightarrow>
               Inr \<lparr>chunk_id = task_id task, content = PNone, processing_time_ms = ms,
                    model_used = ''haiku'', error = Some s\<rparr>))"

section \<open>Dispatch\<close>

text \<open>
  Both dispatch paths build one task per chunk, numbered by \<open>enumerate\<close>. A chunk is a
  dictionary (\<open>List[Dict]\<close>); \<open>chunk.get('content', chunk)\<close> is the value under
  \<open>content\<close>, or the chunk itself when the key is absent.
\<close>

definition chunk_payload :: "pydict \<Rightarrow> pyval" where
  "chunk_payload chunk = (case map_of chunk ''content'' of Some v \<Rightarrow> v | None \<Rightarrow> PDict chunk)"

definition make_task :: "string \<Rightarrow> nat \<times> pydict \<Rightarrow> chunk_task" where
  "make_task q ic =
     \<lparr>task_id = int (fst ic),
      task_content = chunk_payload (snd ic),
      task_type = ''query'',
      query = Some q,
      metadata = snd ic\<rparr>"

definition chunk_tasks :: "pydict list \<Rightarrow> string \<Rightarrow> chunk_task list" where
  "chunk_tasks chunks q = map (make_task q) (enumerate 0 chunks)"

text \<open>
  The Result that both paths substitute for a future that raised: the chunk id is the
  constant \<open>-1\<close>, whatever task the future belonged to.
\<close>

definition failed_result :: "string \<Rightarrow> result" where
  "failed_result s =
     \<lparr>chunk_id = - 1, content = PNone, processing_time_ms = (0, 0),
      model_used = ''haiku'', error = Some s\<rparr>"

text \<open>
  The collecting loop, over the outcomes of the futures in the order in which the loop
  sees them. An outcome that is an exception is converted with \<open>str\<close>; when that
  conversion raises, the exception leaves the loop and reaches the caller.
\<close>

fun collect :: "(pyexc + result) list \<Rightarrow> result list \<Rightarrow> pyexc + result list" where
  "collect [] results = Inr results"
| "collect (Inr r # fs) results = collect fs (results @ [r])"
| "collect (Inl e # fs) results =
     (case str_exc e of
        Inl e' \<Rightarrow> Inl e'
      | Inr s \<Rightarrow> collect fs (results @ [failed_result s]))"

text \<open>
  \<open>process_chunks_sync\<close>. A fresh pool of \<open>max_concurrent\<close> workers runs every task;
  \<open>as_completed\<close> yields the futures in the order they finish, which the scheduler
  decides: the argument \<open>order\<close> lists the indices of the futures in that order (a
  permutation of \<open>0..<n\<close>). \<open>clock i\<close> is the duration measured for the task with id \<open>i\<close>.
  \<open>submit_all\<close> is the list of futures, each with the outcome of its call.
  \<open>future.result(timeout=60)\<close> is only called on a finished future, so the timeout
  never expires. \<open>list.sort(key=...)\<close> is a stable sort, as \<open>sort_key\<close> is.
\<close>

definition submit_all ::
  "manager \<Rightarrow> (pyval \<Rightarrow> string) \<Rightarrow> (int \<Rightarrow> double) \<Rightarrow> chunk_task list
   \<Rightarrow> (pyexc + result) list" where
  "submit_all m repr clock tasks =
     map (\<lambda>task. process_single_chunk m repr (clock (task_id task)) task) tasks"

definition as_completed :: "'a list \<Rightarrow> nat list \<Rightarrow> 'a list" where
  "as_completed futures order = map (\<lambda>i. futures ! i) order"

definition process_chunks_sync ::
  "manager \<Rightarrow> (pyval \<Rightarrow> string) \<Rightarrow> (int \<Rightarrow> double) \<Rightarrow> nat list \<Rightarrow> pydict list \<Rightarrow> string
   \<Rightarrow> pyexc + result list" where
  "process_chunks_sync m repr clock order chunks q =
     (if max_concurrent m \<le> 0 then Inl pool_error
      else
        let futures = submit_all m repr clock (chunk_tasks chunks q)
        in case collect (as_completed futures order) [] of
             Inl e \<Rightarrow> Inl e
           | Inr results \<Rightarrow> Inr (sort_key chunk_id results))"

text \<open>
  \<open>_batch_tasks\<close>: the loop \<open>for i in range(0, len(tasks), batch_size)\<close>. \<open>range\<close> raises
  \<open>ValueError\<close> for a step of zero and is empty for a negative step.
\<close>

function batch_loop :: "'a list \<Rightarrow> nat \<Rightarrow> nat \<Rightarrow> 'a list list" where
  "batch_loop tasks bs i =
     (if 0 < bs \<and> i < length tasks
      then take bs (drop i tasks) # batch_loop tasks bs (i + bs)
      else [])"
  by pat_completeness auto
termination
  by (relation "measure (\<lambda>(tasks, bs, i). length tasks - i)") auto

declare batch_loop.simps [simp del]

definition batch_tasks :: "'a list \<Rightarrow> int \<Rightarrow> pyexc + 'a list list" where
  "batch_tasks tasks batch_size =
     (if batch_size = 0 then Inl (Exc ''range() arg 3 must not be zero'')
      else if batch_size < 0 then Inr []
      else Inr (batch_loop tasks (nat batch_size) 0))"

text \<open>
  \<open>_process_chunk_async\<close> submits the task to the manager's own pool; after \<open>cleanup\<close>
  the submission raises. \<open>asyncio.gather(..., return_exceptions=True)\<close> returns the
  outcomes of a batch in the order of its tasks, and the batches run one after another.
\<close>

definition process_chunk_async ::
  "manager \<Rightarrow> (pyval \<Rightarrow> string) \<Rightarrow> (int \<Rightarrow> double) \<Rightarrow> chunk_task \<Rightarrow> pyexc + result" where
  "process_chunk_async m repr clock task =
     (if executor_shutdown m then Inl (Exc ''cannot schedule new futures after shutdown'')
      else process_single_chunk m repr (clock (task_id task)) task)"

fun run_batches ::
  "manager \<Rightarrow> (pyval \<Rightarrow> string) \<Rightarrow> (int \<Rightarrow> double) \<Rightarrow> chunk_task list list \<Rightarrow> result list
   \<Rightarrow> pyexc + result list" where
  "run_batches m repr clock [] tasks = Inr tasks"
| "run_batches m repr clock (batch # batches) tasks =
     (case collect (map (process_chunk_async m repr clock) batch) tasks of
        Inl e \<Rightarrow> Inl e
      | Inr tasks' \<Rightarrow> run_batches m repr clock batches tasks')"

definition process_chunks_async ::
  "manager \<Rightarrow> (pyval \<Rightarrow> string) \<Rightarrow> (int \<Rightarrow> double) \<Rightarrow> pydict list \<Rightarrow> string
   \<Rightarrow> pyexc + result list" where
  "process_chunks_async m repr clock chunks q =
     (case batch_tasks (chunk_tasks chunks q) (max_concurrent m) of
        Inl e \<Rightarrow> Inl e
      | Inr batches \<Rightarrow> run_batches m repr clock batches [])"

section \<open>Aggregation\<close>

text \<open>
  \<open>aggregate_results\<close> returns a dictionary with five fixed keys: the record
  \<open>aggregated_reply\<close>. Each entry of \<open>errors\<close> is the pair of \<open>chunk\<close> and \<open>error\<close>.
  \<open>dict.update\<close> overwrites the value of a key that is present, in place, and appends a
  new key at the end. \<open>sum\<close> adds the durations as doubles, from the left: \<open>py_sum\<close>. The
  duration \<open>0\<close> that stands in the Result of a failed future is an \<open>int\<close>; added to a double
  it counts as \<open>0.0\<close>, and both are \<open>(0, 0)\<close> here.
\<close>

record aggregated_reply =
  aggregated :: pyval
  chunks_processed :: nat
  chunks_failed :: nat
  total_processing_time_ms :: double
  errors :: "(int \<times> string option) list"

fun is_str :: "pyval \<Rightarrow> bool" where
  "is_str (PStr s) = True"
| "is_str v = False"

fun is_dict :: "pyval \<Rightarrow> bool" where
  "is_dict (PDict d) = True"
| "is_dict v = False"

fun dict_set :: "string \<Rightarrow> pyval \<Rightarrow> pydict \<Rightarrow> pydict" where
  "dict_set k v [] = [(k, v)]"
| "dict_set k v (p # ps) = (if fst p = k then (k, v) # ps else p # dict_set k v ps)"

definition dict_update :: "pydict \<Rightarrow> pyval \<Rightarrow> pydict" where
  "dict_update d v =
     (case v of PDict d' \<Rightarrow> foldl (\<lambda>acc kv. dict_set (fst kv) (snd kv) acc) d d' | _ \<Rightarrow> d)"

definition aggregate_results :: "(pyval \<Rightarrow> string) \<Rightarrow> result list \<Rightarrow> aggregated_reply" where
  "aggregate_results repr results =
     (let successful = filter (\<lambda>r. error r = None) results;
          failed = filter (\<lambda>r. error r \<noteq> None) results;
          total_time = py_sum (map processing_time_ms results);
          aggregated_content =
            (if list_all (\<lambda>r. is_str (content r)) successful
             then PStr (join ''\<newline>\<newline>''
                    (map (\<lambda>r. ''[Chunk '' @ str_int (chunk_id r) @ '']:\<newline>''
                               @ py_str repr (content r)) successful))
             else if list_all (\<lambda>r. is_dict (content r)) successful
             then PDict (foldl dict_update [] (map content successful))
             else PList (map content successful))
      in \<lparr>aggregated = aggregated_content,
          chunks_processed = length successful,
          chunks_failed = length failed,
          total_processing_time_ms = total_time,
          errors = map (\<lambda>r. (chunk_id r, error r)) failed\<rparr>)"

section \<open>Dispatch followed by aggregation\<close>

text \<open>
  The caller in \<open>run_benchmarks.py\<close> (\<open>_process_with_parallel\<close>) passes the Results of
  \<open>process_chunks_sync\<close> to \<open>aggregate_results\<close>.
\<close>

definition dispatch_and_aggregate ::
  "manager \<Rightarrow> (pyval \<Rightarrow> string) \<Rightarrow> (int \<Rightarrow> double) \<Rightarrow> nat list \<Rightarrow> pydict list \<Rightarrow> string
   \<Rightarrow> pyexc + aggregated_reply" where
  "dispatch_and_aggregate m repr clock order chunks q =
     (case process_chunks_sync m repr clock order chunks q of
        Inl e \<Rightarrow> Inl e
      | Inr results \<Rightarrow> Inr (aggregate_results repr results))"

section \<open>The statements' vocabulary\<close>

text \<open>
  \<open>untimed\<close> and \<open>without_timing\<close> blank the timing field of a Result and of a reply.
\<close>

definition untimed :: "result \<Rightarrow> result" where
  "untimed r = r\<lparr>processing_time_ms := (0, 0)\<rparr>"

definition without_timing :: "aggregated_reply \<Rightarrow> aggregated_reply" where
  "without_timing reply = reply\<lparr>total_processing_time_ms := (0, 0)\<rparr>"

text \<open>
  The two parts of a prompt around the payload: they depend on the query and on the
  task id, not on the payload. \<open>query_length\<close> is the length of the query, if any.
\<close>

definition preamble :: "string option \<Rightarrow> int \<Rightarrow> string" where
  "preamble q i =
     (case truthy q of
        Some s \<Rightarrow> ''Process this chunk of data to answer the following query:\<newline>\<newline>Query: ''
                  @ s @ ''\<newline>\<newline>Chunk '' @ str_int i @ '':\<newline>''
      | None \<Rightarrow> ''Extract key information from this chunk:\<newline>\<newline>Chunk '' @ str_int i @ '':\<newline>'')"

definition closing :: "string option \<Rightarrow> string" where
  "closing q =
     (case truthy q of
        Some s \<Rightarrow> ''\<newline>\<newline>Provide a concise response focusing only on information relevant to the query.''
      | None \<Rightarrow> ''\<newline>\<newline>Provide a structured summary of the main points.'')"

definition query_length :: "string option \<Rightarrow> nat" where
  "query_length q = (case q of None \<Rightarrow> 0 | Some s \<Rightarrow> length s)"

text \<open>
  The block of one Result in the aggregated text, and the placeholder Result of a chunk
  when the manager has no worker, both written from the words of the specification.
\<close>

definition text_of :: "pyval \<Rightarrow> string" where
  "text_of v = (case v of PStr s \<Rightarrow> s | _ \<Rightarrow> [])"

definition chunk_block :: "result \<Rightarrow> string" where
  "chunk_block r = ''[Chunk '' @ str_int (chunk_id r) @ '']:\<newline>'' @ text_of (content r)"


section \<open>The token estimator of \<open>token_efficiency_analyzer.py\<close>\<close>

text \<open>
  The estimator reads files, so its strings are sequences of Unicode code points
  (\<open>unicode\<close>) and a file's content is a sequence of bytes, both written as natural
  numbers. \<open>is_space\<close> lists the code points that \<open>str.split()\<close> treats as whitespace.
\<close>

type_synonym unicode = "nat list"

definition is_space :: "nat \<Rightarrow> bool" where
  "is_space c =
     (c \<in> set [9, 10, 11, 12, 13, 28, 29, 30, 31, 32, 133, 160, 5760,
                8192, 8193, 8194, 8195, 8196, 8197, 8198, 8199, 8200, 8201, 8202,
                8232, 8233, 8239, 8287, 12288])"

text \<open>
  \<open>content.split()\<close>: the maximal runs of characters that are not whitespace. The first
  argument of \<open>split_from\<close> is the word read so far.
\<close>

fun split_from :: "unicode \<Rightarrow> unicode \<Rightarrow> unicode list" where
  "split_from word [] = (if word = [] then [] else [word])"
| "split_from word (c # cs) =
     (if is_space c
      then (if word = [] then split_from [] cs else word # split_from [] cs)
      else split_from (word @ [c]) cs)"

definition py_split :: "unicode \<Rightarrow> unicode list" where
  "py_split contents = split_from [] contents"

text \<open>\<open>_looks_like_code\<close>; \<open>indicator in content\<close> is the substring test \<open>sublist\<close>.\<close>

definition code_indicators :: "unicode list" where
  "code_indicators =
     map (map of_char)
       [''def '', ''function '', ''class '', ''import '', ''from '',
        ''{'', ''}'', ''()'', ''=>'', ''=='', ''!='', ''&&'', ''||'']"

definition looks_like_code :: "unicode \<Rightarrow> bool" where
  "looks_like_code contents =
     (let indicator_count =
            sum_list (map (\<lambda>indicator. 1 :: int)
                          (filter (\<lambda>indicator. sublist indicator contents) code_indicators))
      in 3 \<le> indicator_count)"

text \<open>
  The conversion of the word count, the product and \<open>int(x)\<close> of a double that is not
  negative.
\<close>

definition double_of_nat :: "nat \<Rightarrow> double" where
  "double_of_nat n = round53 (int n) 0"

definition fmul :: "double \<Rightarrow> double \<Rightarrow> double" where
  "fmul x y = round53 (fst x * fst y) (snd x + snd y)"

definition py_int :: "double \<Rightarrow> int" where
  "py_int x = (if 0 \<le> snd x then fst x * 2 ^ nat (snd x) else fst x div 2 ^ nat (- snd x))"

text \<open>
  The literals \<open>1.3\<close>, \<open>1.1\<close>, \<open>1.4\<close> and \<open>1.0\<close> denote the doubles nearest to them:
  \<open>0x1.4cccccccccccdp+0\<close>, \<open>0x1.199999999999ap+0\<close>, \<open>0x1.6666666666666p+0\<close> and \<open>1\<close>.
\<close>

definition d1_3 :: double where "d1_3 = (5854679515581645, - 52)"
definition d1_1 :: double where "d1_1 = (4953959590107546, - 52)"
definition d1_4 :: double where "d1_4 = (6305039478318694, - 52)"
definition d1_0 :: double where "d1_0 = (1, 0)"

text \<open>
  \<open>_estimate_tokens_content\<close>. \<open>token_formula\<close> is its arithmetic, from the number of
  words and the answer of \<open>_looks_like_code\<close>: the product is evaluated from the left,
  and \<open>int\<close> truncates.
\<close>

definition token_formula :: "nat \<Rightarrow> bool \<Rightarrow> int" where
  "token_formula n code =
     (let punctuation_factor = d1_1;
          code_factor = (if code then d1_4 else d1_0);
          estimated_tokens =
            fmul (fmul (fmul (double_of_nat n) d1_3) punctuation_factor) code_factor
      in py_int estimated_tokens)"

definition estimate_tokens_content :: "unicode \<Rightarrow> int" where
  "estimate_tokens_content contents =
     (let words = py_split contents
      in token_formula (length words) (looks_like_code contents))"

text \<open>
  \<open>_estimate_tokens_file\<close> opens the file as text, \<open>encoding='utf-8'\<close> and
  \<open>errors='ignore'\<close>. \<open>utf8_ignore\<close> is that decoder: a well-formed sequence gives its
  code point; of an ill-formed one the bytes up to the offending byte are dropped and
  decoding resumes at that byte; a sequence cut off by the end of the file is dropped.
  \<open>universal_newlines\<close> is the newline translation of text mode.
\<close>

definition cont :: "nat \<Rightarrow> bool" where
  "cont b = (0x80 \<le> b \<and> b \<le> 0xBF)"

definition second3 :: "nat \<Rightarrow> nat \<Rightarrow> bool" where
  "second3 b c = (cont c \<and> (if c < 0xA0 then b \<noteq> 0xE0 else b \<noteq> 0xED))"

definition second4 :: "nat \<Rightarrow> nat \<Rightarrow> bool" where
  "second4 b c = (cont c \<and> (if c < 0x90 then b \<noteq> 0xF0 else b \<noteq> 0xF4))"

fun utf8_ignore :: "nat list \<Rightarrow> unicode" where
  "utf8_ignore [] = []"
| "utf8_ignore (b # bs) =
     (if b < 0x80 then b # utf8_ignore bs
      else if 0xC2 \<le> b \<and> b \<le> 0xDF then
        (case bs of
           [] \<Rightarrow> []
         | c1 # r1 \<Rightarrow>
             if cont c1 then ((b - 0xC0) * 64 + (c1 - 0x80)) # utf8_ignore r1
             else utf8_ignore bs)
      else if 0xE0 \<le> b \<and> b \<le> 0xEF then
        (case bs of
           [] \<Rightarrow> []
         | c1 # r1 \<Rightarrow>
             if second3 b c1 then
               (case r1 of
                  [] \<Rightarrow> []
                | c2 # r2 \<Rightarrow>
                    if cont c2
                    then ((b - 0xE0) * 4096 + (c1 - 0x80) * 64 + (c2 - 0x80)) # utf8_ignore r2
                    else utf8_ignore r1)
             else utf8_ignore bs)
      else if 0xF0 \<le> b \<and> b \<le> 0xF4 then
        (case bs of
           [] \<Rightarrow> []
         | c1 # r1 \<Rightarrow>
             if second4 b c1 then
               (case r1 of
                  [] \<Rightarrow> []
                | c2 # r2 \<Rightarrow>
                    if cont c2 then
                      (case r2 of
                         [] \<Rightarrow> []
                       | c3 # r3 \<Rightarrow>
                           if cont c3
                           then ((b - 0xF0) * 262144 + (c1 - 0x80) * 4096
                                 + (c2 - 0x80) * 64 + (c3 - 0x80)) # utf8_ignore r3
                           else utf8_ignore r2)
                    else utf8_ignore r1)
             else utf8_ignore bs)
      else utf8_ignore bs)"

fun universal_newlines :: "unicode \<Rightarrow> unicode" where
  "universal_newlines [] = []"
| "universal_newlines (c # cs) =
     (if c = 13
      then (case cs of
              [] \<Rightarrow> [10]
            | d # ds \<Rightarrow> if d = 10 then 10 # universal_newlines ds
                       else 10 # universal_newlines cs)
      else c # universal_newlines cs)"

text \<open>
  What the function finds at the path: a file that opens and reads, with its bytes; a
  file whose \<open>open\<close> or \<open>read\<close> raises while \<open>stat\<close> succeeds, with its size; or a path
  on which \<open>stat\<close> raises as well, with that exception.
\<close>

datatype file_state =
    Missing pyexc
  | Unreadable nat
  | Readable "nat list"

definition estimate_tokens_file :: "file_state \<Rightarrow> pyexc + int" where
  "estimate_tokens_file file_path =
     (case file_path of
        Readable bytes \<Rightarrow> Inr (estimate_tokens_content (universal_newlines (utf8_ignore bytes)))
      | Unreadable st_size \<Rightarrow> Inr (int st_size div 4)
      | Missing e \<Rightarrow> Inl e)"

text \<open>
  From the words of the specification: \<open>word_count\<close> counts the characters that start a whitespace-delimited
  token (a character that is not whitespace, at the start or after whitespace), and
  \<open>marker_count\<close> the distinct markers that occur in the text.
\<close>

fun count_starts :: "bool \<Rightarrow> unicode \<Rightarrow> nat" where
  "count_starts after_space [] = 0"
| "count_starts after_space (c # cs) =
     (if \<not> is_space c \<and> after_space then 1 else 0) + count_starts (is_space c) cs"

definition word_count :: "unicode \<Rightarrow> nat" where
  "word_count contents = count_starts True contents"

definition marker_count :: "unicode \<Rightarrow> nat" where
  "marker_count contents = card {m \<in> set code_indicators. sublist m contents}"

section \<open>Workers that the handlers can report\<close>

text \<open>
  \<open>str_ok e\<close>: the exception has a string form. A worker is \<open>plain\<close> when every
  exception it raises has one; an absent worker raises nothing.
\<close>

definition str_ok :: "pyexc \<Rightarrow> bool" where
  "str_ok e = (case str_exc e of Inr s \<Rightarrow> True | Inl e' \<Rightarrow> False)"

definition plain_worker :: "worker option \<Rightarrow> bool" where
  "plain_worker w =
     (case w of None \<Rightarrow> True | Some f \<Rightarrow> (\<forall>p mdl e. f p mdl = Raises e \<longrightarrow> str_ok e))"

text \<open>
  \<open>str_ok2 e\<close>: the exception has a string form, or its \<open>__str__\<close> raises an exception
  that has one. A worker is \<open>reportable\<close> when every exception it raises is of this kind.
\<close>

definition str_ok2 :: "pyexc \<Rightarrow> bool" where
  "str_ok2 e = (case str_exc e of Inr s \<Rightarrow> True | Inl e' \<Rightarrow> str_ok e')"

definition reportable_worker :: "worker option \<Rightarrow> bool" where
  "reportable_worker w =
     (case w of None \<Rightarrow> True | Some f \<Rightarrow> (\<forall>p mdl e. f p mdl = Raises e \<longrightarrow> str_ok2 e))"

text \<open>\<open>worker_raises\<close>: the worker call that \<open>_process_single_chunk\<close> makes for the task raises.\<close>

definition worker_raises :: "manager \<Rightarrow> (pyval \<Rightarrow> string) \<Rightarrow> chunk_task \<Rightarrow> bool" where
  "worker_raises m repr task =
     (case llm_query_fn m of
        None \<Rightarrow> False
      | Some f \<Rightarrow> (case f (build_prompt repr task) (select_model task) of
                    Raises e \<Rightarrow> True | Returns c \<Rightarrow> False))"

text \<open>A Result is \<open>folded\<close> when it has no error, or has one and its content is \<open>None\<close>.\<close>

definition folded :: "result \<Rightarrow> bool" where
  "folded r = (error r = None \<or> content r = PNone)"

section \<open>What the collecting loop appends\<close>

text \<open>
  \<open>settle f\<close> is the Result the loop appends for the outcome \<open>f\<close> of a future, and
  \<open>settles f\<close> says that the loop gets past it (the outcome is a Result, or an exception
  with a string form). \<open>expected_id\<close> is the chunk id of the Result a task ends up with:
  its own id when \<open>_process_single_chunk\<close> returned, \<open>-1\<close> when its future failed.
\<close>

definition settle :: "pyexc + result \<Rightarrow> result" where
  "settle f =
     (case f of
        Inr r \<Rightarrow> r
      | Inl e \<Rightarrow> (case str_exc e of Inr s \<Rightarrow> failed_result s | Inl e' \<Rightarrow> failed_result []))"

definition settles :: "pyexc + result \<Rightarrow> bool" where
  "settles f = (case f of Inr r \<Rightarrow> True | Inl e \<Rightarrow> str_ok e)"

definition expected_id ::
  "manager \<Rightarrow> (pyval \<Rightarrow> string) \<Rightarrow> (int \<Rightarrow> double) \<Rightarrow> chunk_task \<Rightarrow> int" where
  "expected_id m repr clock task =
     (case process_single_chunk m repr (clock (task_id task)) task of
        Inr r \<Rightarrow> task_id task
      | Inl e \<Rightarrow> - 1)"

section \<open>A small run, used to evaluate the functions\<close>

text \<open>
  Two chunks with string payloads and the query \<open>why\<close>. The payloads are strings, so
  \<open>example_repr\<close> is never consulted. The workers tell the two prompts apart by the
  digit of the chunk number: only the prompt of chunk 1 contains \<open>1\<close>.
\<close>

definition example_repr :: "pyval \<Rightarrow> string" where
  "example_repr v = ''?''"

definition example_clock :: "int \<Rightarrow> double" where
  "example_clock i = (5, 0)"

definition example_chunks :: "pydict list" where
  "example_chunks = [[(''content'', PStr ''alpha'')], [(''content'', PStr ''beta'')]]"

definition example_manager :: "worker option \<Rightarrow> manager" where
  "example_manager w = \<lparr>max_concurrent = 8, llm_query_fn = w, executor_shutdown = False\<rparr>"

definition example_clock2 :: "int \<Rightarrow> double" where
  "example_clock2 i = (7, 0)"

definition example_results :: "result list" where
  "example_results =
     [\<lparr>chunk_id = 0, content = PStr ''a'', processing_time_ms = (5000000000000000, 1),
        model_used = ''haiku'', error = None\<rparr>,
      \<lparr>chunk_id = 1, content = PNone, processing_time_ms = (1, 0),
        model_used = ''haiku'', error = Some ''boom''\<rparr>,
      \<lparr>chunk_id = 2, content = PStr ''b'', processing_time_ms = (1, 0),
        model_used = ''haiku'', error = None\<rparr>]"

definition task0 :: chunk_task where
  "task0 = \<lparr>task_id = 0, task_content = PStr ''alpha'', task_type = ''query'',
            query = Some ''why'', metadata = [(''content'', PStr ''alpha'')]\<rparr>"

definition task1 :: chunk_task where
  "task1 = \<lparr>task_id = 1, task_content = PStr ''beta'', task_type = ''query'',
            query = Some ''why'', metadata = [(''content'', PStr ''beta'')]\<rparr>"

definition mentions_one :: "string \<Rightarrow> bool" where
  "mentions_one p = (CHR ''1'' \<in> set p)"

definition worker_plain :: worker where
  "worker_plain p mdl = (if mentions_one p then Raises (Exc ''boom'') else Returns (PStr ''ok''))"

definition worker_bad_str :: worker where
  "worker_bad_str p mdl =
     (if mentions_one p then Raises (BadStr (Exc ''boom'')) else Returns (PStr ''ok''))"

definition worker_bad_twice :: worker where
  "worker_bad_twice p mdl = Raises (BadStr (BadStr (Exc ''boom'')))"

definition worker_bad_each :: worker where
  "worker_bad_each p mdl =
     (if mentions_one p then Raises (BadStr (Exc ''one'')) else Raises (BadStr (Exc ''zero'')))"

section \<open>Properties: tasks, the collecting loop, batching\<close>

lemma length_chunk_tasks: "length (chunk_tasks chunks q) = length chunks"
  by (simp add: chunk_tasks_def)

lemma task_id_chunk_tasks: "map task_id (chunk_tasks chunks q) = map int [0..<length chunks]"
proof -
  have "map (\<lambda>x. int (fst x)) (enumerate 0 chunks) = map int (map fst (enumerate 0 chunks))"
    by (simp only: map_map comp_def)
  then show ?thesis
    by (simp add: chunk_tasks_def make_task_def comp_def)
qed

lemma task_type_chunk_tasks:
  "map task_type (chunk_tasks chunks q) = replicate (length chunks) ''query''"
  by (simp add: chunk_tasks_def make_task_def comp_def map_replicate_const)

lemma collect_length: "collect fs acc = Inr rs \<Longrightarrow> length rs = length acc + length fs"
proof (induction fs acc rule: collect.induct)
  case (3 e fs results)
  then show ?case by (cases "str_exc e") auto
qed auto

lemma collect_append:
  "collect (fs @ gs) acc = (case collect fs acc of Inl e \<Rightarrow> Inl e | Inr acc' \<Rightarrow> collect gs acc')"
proof (induction fs acc rule: collect.induct)
  case (3 e fs results)
  then show ?case by (cases "str_exc e") auto
qed auto

lemma collect_all_Inr: "collect (map Inr rs) acc = Inr (acc @ rs)"
  by (induction rs arbitrary: acc) auto

lemma concat_batch_loop: "0 < bs \<Longrightarrow> concat (batch_loop tasks bs i) = drop i tasks"
proof (induction tasks bs i rule: batch_loop.induct)
  case (1 tasks bs i)
  show ?case
  proof (cases "i < length tasks")
    case True
    with 1 have "concat (batch_loop tasks bs (i + bs)) = drop (i + bs) tasks"
      by simp
    moreover have "take bs (drop i tasks) @ drop (i + bs) tasks = drop i tasks"
      by (metis add.commute append_take_drop_id drop_drop)
    ultimately show ?thesis using True 1(2)
      by (subst batch_loop.simps) simp
  next
    case False
    then show ?thesis by (subst batch_loop.simps) simp
  qed
qed

lemma run_batches_concat:
  "run_batches m repr clock batches acc =
     collect (map (process_chunk_async m repr clock) (concat batches)) acc"
proof (induction batches arbitrary: acc)
  case (Cons b bs)
  then show ?case by (simp add: collect_append split: sum.splits)
qed simp

lemma process_chunks_async_collect:
  "0 < max_concurrent m \<Longrightarrow>
   process_chunks_async m repr clock chunks q =
     collect (map (process_chunk_async m repr clock) (chunk_tasks chunks q)) []"
  by (simp add: process_chunks_async_def batch_tasks_def run_batches_concat concat_batch_loop)

lemma sync_unfold:
  "0 < max_concurrent m \<Longrightarrow>
   process_chunks_sync m repr clock order chunks q =
     (case collect (as_completed (submit_all m repr clock (chunk_tasks chunks q)) order) [] of
        Inl e \<Rightarrow> Inl e
      | Inr results \<Rightarrow> Inr (sort_key chunk_id results))"
  by (simp add: process_chunks_sync_def)

lemma length_submit_all: "length (submit_all m repr clock tasks) = length tasks"
  by (simp add: submit_all_def)

section \<open>Properties: completion order and the stable sort\<close>

lemma perm_length: "mset order = mset [0..<n] \<Longrightarrow> length order = n"
  by (metis length_upt minus_nat.diff_0 size_mset)

lemma perm_set: "mset order = mset [0..<n] \<Longrightarrow> set order = {0..<n}"
  by (metis mset_eq_setD set_upt)

lemma mset_as_completed:
  assumes "mset order = mset [0..<length fs]"
  shows "mset (as_completed fs order) = mset fs"
proof -
  have "mset (as_completed fs order) = image_mset (\<lambda>i. fs ! i) (mset order)"
    by (simp add: as_completed_def)
  also have "\<dots> = mset (map (\<lambda>i. fs ! i) [0..<length fs])"
    by (simp add: assms)
  also have "map (\<lambda>i. fs ! i) [0..<length fs] = fs"
    by (rule map_nth)
  finally show ?thesis .
qed

lemma as_completed_map:
  "\<forall>i\<in>set order. i < length fs \<Longrightarrow>
   as_completed (map f fs) order = map f (as_completed fs order)"
  by (simp add: as_completed_def)

lemma sort_key_as_completed:
  assumes "mset order = mset [0..<length ds]"
    and ids: "map chunk_id ds = map int [0..<length ds]"
  shows "sort_key chunk_id (as_completed ds order) = ds"
proof (rule sort_key_inj_key_eq)
  show m: "mset (as_completed ds order) = mset ds"
    using assms(1) by (rule mset_as_completed)
  have "distinct (map chunk_id ds)"
    by (simp add: ids distinct_map)
  then have "inj_on chunk_id (set ds)"
    by (simp add: distinct_map)
  moreover have "set (as_completed ds order) = set ds"
    using m by (rule mset_eq_setD)
  ultimately show "inj_on chunk_id (set (as_completed ds order))"
    by simp
  show "sorted (map chunk_id ds)"
    by (simp add: ids sorted_map)
qed

section \<open>Properties: one chunk\<close>

lemma process_single_chunk_id:
  "process_single_chunk m repr ms task = Inr r \<Longrightarrow> chunk_id r = task_id task"
  by (auto simp: process_single_chunk_def split: option.splits outcome.splits sum.splits)

lemma process_single_chunk_plain:
  "plain_worker (llm_query_fn m) \<Longrightarrow> \<exists>r. process_single_chunk m repr ms task = Inr r"
  by (auto simp: process_single_chunk_def plain_worker_def str_ok_def
           split: option.splits outcome.splits sum.splits)

lemma submit_all_plain:
  assumes "plain_worker (llm_query_fn m)"
  shows "submit_all m repr clock tasks = map Inr (map projr (submit_all m repr clock tasks))"
proof -
  have "process_single_chunk m repr ms task = Inr (projr (process_single_chunk m repr ms task))"
    for ms task
    using process_single_chunk_plain[OF assms, of repr ms task] by auto
  then show ?thesis by (simp add: submit_all_def)
qed

lemma chunk_id_submit_all:
  assumes "plain_worker (llm_query_fn m)"
  shows "map chunk_id (map projr (submit_all m repr clock tasks)) = map task_id tasks"
proof -
  have "chunk_id (projr (process_single_chunk m repr ms task)) = task_id task" for ms task
    using process_single_chunk_plain[OF assms, of repr ms task] process_single_chunk_id
    by fastforce
  then show ?thesis by (simp add: submit_all_def)
qed

section \<open>Properties: dispatch with a plain worker\<close>

lemma sync_plain:
  assumes perm: "mset order = mset [0..<length chunks]" and mc: "0 < max_concurrent m"
    and plain: "plain_worker (llm_query_fn m)"
  shows "process_chunks_sync m repr clock order chunks q =
         Inr (map projr (submit_all m repr clock (chunk_tasks chunks q)))"
proof -
  let ?fs = "submit_all m repr clock (chunk_tasks chunks q)"
  let ?ds = "map projr ?fs"
  have len: "length ?ds = length chunks"
    by (simp add: length_submit_all length_chunk_tasks)
  have fs: "?fs = map Inr ?ds"
    using plain by (rule submit_all_plain)
  have inr: "\<forall>i\<in>set order. i < length ?ds"
    using perm_set[OF perm] len by simp
  have "as_completed ?fs order = as_completed (map Inr ?ds) order"
    using fs by simp
  also have "\<dots> = map Inr (as_completed ?ds order)"
    using inr by (rule as_completed_map)
  finally have "collect (as_completed ?fs order) [] = Inr (as_completed ?ds order)"
    by (simp add: collect_all_Inr)
  moreover have "sort_key chunk_id (as_completed ?ds order) = ?ds"
  proof (rule sort_key_as_completed)
    show "mset order = mset [0..<length ?ds]" using perm len by simp
    show "map chunk_id ?ds = map int [0..<length ?ds]"
      using chunk_id_submit_all[OF plain, of repr clock "chunk_tasks chunks q"] len
      by (simp add: task_id_chunk_tasks)
  qed
  ultimately show ?thesis
    using mc by (simp add: sync_unfold)
qed

lemma async_plain:
  assumes mc: "0 < max_concurrent m" and plain: "plain_worker (llm_query_fn m)"
    and up: "\<not> executor_shutdown m"
  shows "process_chunks_async m repr clock chunks q =
         Inr (map projr (submit_all m repr clock (chunk_tasks chunks q)))"
proof -
  let ?fs = "submit_all m repr clock (chunk_tasks chunks q)"
  have "map (process_chunk_async m repr clock) (chunk_tasks chunks q) = ?fs"
    using up by (simp add: process_chunk_async_def submit_all_def)
  also have "\<dots> = map Inr (map projr ?fs)"
    using plain by (rule submit_all_plain)
  finally have "collect (map (process_chunk_async m repr clock) (chunk_tasks chunks q)) [] =
                Inr (map projr ?fs)"
    by (simp only: collect_all_Inr append_Nil)
  then show ?thesis
    using mc by (simp add: process_chunks_async_collect)
qed

lemma async_shutdown:
  assumes mc: "0 < max_concurrent m" and down: "executor_shutdown m"
  shows "process_chunks_async m repr clock chunks q =
         Inr (replicate (length chunks)
                (failed_result ''cannot schedule new futures after shutdown''))"
proof -
  have "map (process_chunk_async m repr clock) (chunk_tasks chunks q) =
        replicate (length chunks) (Inl (Exc ''cannot schedule new futures after shutdown''))"
    using down
    by (simp add: process_chunk_async_def[abs_def] map_replicate_const length_chunk_tasks)
  moreover have "collect (replicate n (Inl (Exc s))) acc = Inr (acc @ replicate n (failed_result s))"
    for n s acc
    by (induction n arbitrary: acc) (simp_all add: replicate_app_Cons_same)
  ultimately show ?thesis
    using mc by (simp add: process_chunks_async_collect)
qed

section \<open>Properties: the small run\<close>

lemma str_int_small:
  "str_int 0 = ''0''" "str_int 1 = ''1''" "str_int 2 = ''2''" "str_int 4 = ''4''"
  "str_int 5 = ''5''" "str_int (- 1) = ''-1''"
  by (simp_all add: str_int_def digits.simps)

lemma example_tasks: "chunk_tasks example_chunks ''why'' = [task0, task1]"
  by (simp add: chunk_tasks_def example_chunks_def make_task_def chunk_payload_def
        task0_def task1_def enumerate_eq_zip upt_rec)

lemma example_prompts:
  "\<not> mentions_one (build_prompt example_repr task0)"
  "mentions_one (build_prompt example_repr task1)"
  by (simp_all add: mentions_one_def build_prompt_def truthy_def task0_def task1_def
        str_int_small py_str_def)

lemma example_models: "select_model task0 = ''haiku''" "select_model task1 = ''haiku''"
  by (simp_all add: select_model_def task0_def task1_def)

lemma example_perm: "mset [1, 0] = mset [0..<length example_chunks]"
  by (simp add: example_chunks_def upt_rec)

lemma example_pool: "0 < max_concurrent (example_manager w)"
  by (simp add: example_manager_def)

lemma worker_plain_is_plain: "plain_worker (llm_query_fn (example_manager (Some worker_plain)))"
  by (simp add: plain_worker_def worker_plain_def str_ok_def example_manager_def)

lemma single_plain:
  "process_single_chunk (example_manager (Some worker_plain)) example_repr ms task0 =
     Inr \<lparr>chunk_id = 0, content = PStr ''ok'', processing_time_ms = ms,
          model_used = ''haiku'', error = None\<rparr>"
  "process_single_chunk (example_manager (Some worker_plain)) example_repr ms task1 =
     Inr \<lparr>chunk_id = 1, content = PNone, processing_time_ms = ms,
          model_used = ''haiku'', error = Some ''boom''\<rparr>"
  by (simp_all add: process_single_chunk_def example_manager_def worker_plain_def
        example_prompts example_models) (simp_all add: task0_def task1_def)

lemma single_bad_str:
  "process_single_chunk (example_manager (Some worker_bad_str)) example_repr ms task0 =
     Inr \<lparr>chunk_id = 0, content = PStr ''ok'', processing_time_ms = ms,
          model_used = ''haiku'', error = None\<rparr>"
  "process_single_chunk (example_manager (Some worker_bad_str)) example_repr ms task1 =
     Inl (Exc ''boom'')"
  by (simp_all add: process_single_chunk_def example_manager_def worker_bad_str_def
        example_prompts example_models) (simp_all add: task0_def)

lemma bit_length_numeral:
  "bit_length (numeral (Num.Bit0 k)) = bit_length (numeral k) + 1"
  "bit_length (numeral (Num.Bit1 k)) = bit_length (numeral k) + 1"
  "bit_length 1 = 1"
  "bit_length 0 = 0"
proof -
  show "bit_length (numeral (Num.Bit0 k)) = bit_length (numeral k) + 1"
    by (subst bit_length.simps) (simp add: numeral_Bit0_div_2)
  show "bit_length (numeral (Num.Bit1 k)) = bit_length (numeral k) + 1"
    by (subst bit_length.simps) (simp add: numeral_Bit1_div_2)
  show "bit_length 1 = 1"
    by (simp add: bit_length.simps[of 1] bit_length.simps[of 0])
  show "bit_length 0 = 0"
    by (simp add: bit_length.simps[of 0])
qed

lemma py_sum_small:
  "py_sum [] = (0, 0)"
  "py_sum [(0, 0), (0, 0)] = (0, 0)"
  "py_sum [(5, 0), (5, 0)] = (10, 0)"
  by (simp_all add: py_sum_def fadd_def round_signed_def round53_def Let_def bit_length_numeral)


text \<open>
  \<open>sum([0.1, 0.2, 0.3])\<close> is \<open>0.6000000000000001\<close>: the doubles nearest to the three
  decimals are \<open>3602879701896397 * 2 ^ -55\<close>, \<open>3602879701896397 * 2 ^ -54\<close> and
  \<open>5404319552844595 * 2 ^ -54\<close>, and the sum is \<open>5404319552844596 * 2 ^ -53\<close>.
\<close>

lemma py_sum_tenths:
  "py_sum [(3602879701896397, - 55), (3602879701896397, - 54), (5404319552844595, - 54)]
     = (5404319552844596, - 53)"
  by (simp add: py_sum_def fadd_def round_signed_def round53_def Let_def bit_length_numeral)

lemma sync_bad_str:
  "process_chunks_sync (example_manager (Some worker_bad_str)) example_repr example_clock
      [1, 0] example_chunks ''why''
     = Inr [\<lparr>chunk_id = - 1, content = PNone, processing_time_ms = (0, 0),
              model_used = ''haiku'', error = Some ''boom''\<rparr>,
            \<lparr>chunk_id = 0, content = PStr ''ok'', processing_time_ms = (5, 0),
              model_used = ''haiku'', error = None\<rparr>]"
  by (simp add: sync_unfold example_pool example_tasks submit_all_def single_bad_str
        as_completed_def example_clock_def failed_result_def)

lemma sync_bad_str_in_order:
  "process_chunks_sync (example_manager (Some worker_bad_str)) example_repr example_clock
      [0, 1] example_chunks ''why''
     = Inr [\<lparr>chunk_id = - 1, content = PNone, processing_time_ms = (0, 0),
              model_used = ''haiku'', error = Some ''boom''\<rparr>,
            \<lparr>chunk_id = 0, content = PStr ''ok'', processing_time_ms = (5, 0),
              model_used = ''haiku'', error = None\<rparr>]"
  by (simp add: sync_unfold example_pool example_tasks submit_all_def single_bad_str
        as_completed_def example_clock_def failed_result_def)

lemma sync_plain_example:
  "process_chunks_sync (example_manager (Some worker_plain)) example_repr example_clock
      [1, 0] example_chunks ''why''
     = Inr [\<lparr>chunk_id = 0, content = PStr ''ok'', processing_time_ms = (5, 0),
              model_used = ''haiku'', error = None\<rparr>,
            \<lparr>chunk_id = 1, content = PNone, processing_time_ms = (5, 0),
              model_used = ''haiku'', error = Some ''boom''\<rparr>]"
  by (simp add: sync_unfold example_pool example_tasks submit_all_def single_plain
        as_completed_def example_clock_def)

section \<open>Model selection\<close>

text \<open>
  C4, as the code has it. The selector answers \<open>sonnet\<close> for the task types
  \<open>analysis\<close> and \<open>synthesis\<close> and \<open>haiku\<close> for every other type: for \<open>extraction\<close>, and
  also for \<open>query\<close>, which falls to the final branch. Both dispatch paths give every task
  the type \<open>query\<close>, so every task they build is assigned \<open>haiku\<close>.
\<close>

theorem select_model_cases:
  "select_model task =
     (if task_type task = ''analysis'' \<or> task_type task = ''synthesis''
      then ''sonnet'' else ''haiku'')
   \<and> map select_model (chunk_tasks chunks q) = replicate (length chunks) ''haiku''"
proof
  show "select_model task =
     (if task_type task = ''analysis'' \<or> task_type task = ''synthesis''
      then ''sonnet'' else ''haiku'')"
    by (simp add: select_model_def)
  show "map select_model (chunk_tasks chunks q) = replicate (length chunks) ''haiku''"
    by (simp add: chunk_tasks_def make_task_def select_model_def comp_def map_replicate_const)
qed

text \<open>
  C4 as the claim states it fails: a task of type \<open>query\<close>, built by dispatch from a chunk
  and the user query \<open>why\<close>, is assigned \<open>haiku\<close>, not \<open>sonnet\<close>.
\<close>

theorem select_model_query_counterexample:
  "task_type (make_task ''why'' (0, [(''content'', PStr ''alpha'')])) = ''query''
   \<and> select_model (make_task ''why'' (0, [(''content'', PStr ''alpha'')])) = ''haiku''
   \<and> select_model (make_task ''why'' (0, [(''content'', PStr ''alpha'')])) \<noteq> ''sonnet''"
  by (simp add: make_task_def select_model_def)

section \<open>Length and order of the dispatched Results\<close>

text \<open>
  What both paths do satisfy. On a manager with a positive pool size and for every
  completion order: whenever \<open>process_chunks_sync\<close> returns, it returns as many Results as
  there are chunks, sorted by \<open>chunk_id\<close> ascending; whenever \<open>process_chunks_async\<close>
  returns, it returns as many Results as there are chunks; and when every exception the
  worker raises has a string form, both return, and the asynchronous sequence is sorted
  by \<open>chunk_id\<close> too.
\<close>

lemma dispatch_length_sorted:
  assumes perm: "mset order = mset [0..<length chunks]" and mc: "0 < max_concurrent m"
  shows "(\<forall>rs. process_chunks_sync m repr clock order chunks q = Inr rs \<longrightarrow>
            length rs = length chunks \<and> sorted (map chunk_id rs))
       \<and> (\<forall>rs. process_chunks_async m repr clock chunks q = Inr rs \<longrightarrow>
            length rs = length chunks)
       \<and> (plain_worker (llm_query_fn m) \<longrightarrow>
            (\<exists>rs. process_chunks_sync m repr clock order chunks q = Inr rs)
          \<and> (\<exists>rs. process_chunks_async m repr clock chunks q = Inr rs
                  \<and> sorted (map chunk_id rs)))"
proof (intro conjI allI impI)
  fix rs
  assume a: "process_chunks_sync m repr clock order chunks q = Inr rs"
  then obtain results where
    c: "collect (as_completed (submit_all m repr clock (chunk_tasks chunks q)) order) [] =
        Inr results"
    and rs: "rs = sort_key chunk_id results"
    using mc by (auto simp: sync_unfold split: sum.splits)
  from collect_length[OF c] have "length results = length order"
    by (simp add: as_completed_def)
  then show "length rs = length chunks"
    using rs perm_length[OF perm] by simp
  show "sorted (map chunk_id rs)"
    using rs by (simp add: sorted_sort_key)
next
  fix rs
  assume "process_chunks_async m repr clock chunks q = Inr rs"
  then have "collect (map (process_chunk_async m repr clock) (chunk_tasks chunks q)) [] = Inr rs"
    using mc by (simp add: process_chunks_async_collect)
  from collect_length[OF this] show "length rs = length chunks"
    by (simp add: length_chunk_tasks)
next
  assume "plain_worker (llm_query_fn m)"
  then show "\<exists>rs. process_chunks_sync m repr clock order chunks q = Inr rs"
    using sync_plain[OF perm mc] by blast
next
  assume plain: "plain_worker (llm_query_fn m)"
  show "\<exists>rs. process_chunks_async m repr clock chunks q = Inr rs \<and> sorted (map chunk_id rs)"
  proof (cases "executor_shutdown m")
    case True
    then show ?thesis
      using async_shutdown[OF mc] by (simp add: map_replicate_const sorted_replicate)
  next
    case False
    have "sorted (map chunk_id (map projr (submit_all m repr clock (chunk_tasks chunks q))))"
      using chunk_id_submit_all[OF plain, of repr clock "chunk_tasks chunks q"]
      by (simp add: task_id_chunk_tasks sorted_map del: map_map)
    then show ?thesis
      using async_plain[OF mc plain False] by simp
  qed
qed

lemma dispatch_length_sorted_example:
  "mset [1, 0] = mset [0..<length example_chunks]
   \<and> 0 < max_concurrent (example_manager (Some worker_plain))
   \<and> plain_worker (llm_query_fn (example_manager (Some worker_plain)))
   \<and> process_chunks_sync (example_manager (Some worker_plain)) example_repr example_clock
         [1, 0] example_chunks ''why''
       = Inr [\<lparr>chunk_id = 0, content = PStr ''ok'', processing_time_ms = (5, 0),
                model_used = ''haiku'', error = None\<rparr>,
              \<lparr>chunk_id = 1, content = PNone, processing_time_ms = (5, 0),
                model_used = ''haiku'', error = Some ''boom''\<rparr>]
   \<and> (\<exists>rs. process_chunks_async (example_manager (Some worker_plain)) example_repr
               example_clock example_chunks ''why'' = Inr rs
            \<and> length rs = length example_chunks \<and> sorted (map chunk_id rs))"
proof -
  let ?m = "example_manager (Some worker_plain)"
  have sync: "process_chunks_sync ?m example_repr example_clock [1, 0] example_chunks ''why''
       = Inr [\<lparr>chunk_id = 0, content = PStr ''ok'', processing_time_ms = (5, 0),
                model_used = ''haiku'', error = None\<rparr>,
              \<lparr>chunk_id = 1, content = PNone, processing_time_ms = (5, 0),
                model_used = ''haiku'', error = Some ''boom''\<rparr>]"
    by (simp add: sync_unfold example_pool example_tasks submit_all_def single_plain
          as_completed_def example_clock_def)
  from dispatch_length_sorted[OF example_perm example_pool, of "Some worker_plain"
      example_repr example_clock "''why''"]
  have "\<exists>rs. process_chunks_async ?m example_repr example_clock example_chunks ''why'' = Inr rs
            \<and> length rs = length example_chunks \<and> sorted (map chunk_id rs)"
    using worker_plain_is_plain by blast
  then show ?thesis
    using example_perm example_pool worker_plain_is_plain sync by blast
qed

text \<open>
  C1. The property: for every sequence of chunks and every query, \<open>process_chunks_sync\<close>,
  and likewise \<open>process_chunks_async\<close>, returns as many Results as there are chunks,
  sorted by \<open>chunk_id\<close> ascending. The code does not have it on the asynchronous path,
  whose loop has no \<open>sort\<close>. On two chunks, the worker answers chunk 0 and raises on chunk
  1 an exception whose \<open>__str__\<close> raises; the future of chunk 1 fails and its Result gets
  the id \<open>-1\<close>. \<open>process_chunks_async\<close> returns the ids \<open>0, -1\<close>, which are not ascending,
  where \<open>process_chunks_sync\<close> returns on the same input, in both completion orders, the
  same two Results with the ids \<open>-1, 0\<close>.
\<close>

theorem async_order_counterexample:
  "process_chunks_async (example_manager (Some worker_bad_str)) example_repr example_clock
      example_chunks ''why''
     = Inr [\<lparr>chunk_id = 0, content = PStr ''ok'', processing_time_ms = (5, 0),
              model_used = ''haiku'', error = None\<rparr>,
            \<lparr>chunk_id = - 1, content = PNone, processing_time_ms = (0, 0),
              model_used = ''haiku'', error = Some ''boom''\<rparr>]
   \<and> \<not> sorted (map chunk_id
          [\<lparr>chunk_id = 0, content = PStr ''ok'', processing_time_ms = (5, 0),
              model_used = ''haiku'', error = None\<rparr>,
            \<lparr>chunk_id = - 1, content = PNone, processing_time_ms = (0, 0),
              model_used = ''haiku'', error = Some ''boom''\<rparr>])
   \<and> process_chunks_sync (example_manager (Some worker_bad_str)) example_repr example_clock
        [1, 0] example_chunks ''why''
     = Inr [\<lparr>chunk_id = - 1, content = PNone, processing_time_ms = (0, 0),
              model_used = ''haiku'', error = Some ''boom''\<rparr>,
            \<lparr>chunk_id = 0, content = PStr ''ok'', processing_time_ms = (5, 0),
              model_used = ''haiku'', error = None\<rparr>]
   \<and> process_chunks_sync (example_manager (Some worker_bad_str)) example_repr example_clock
        [0, 1] example_chunks ''why''
     = Inr [\<lparr>chunk_id = - 1, content = PNone, processing_time_ms = (0, 0),
              model_used = ''haiku'', error = Some ''boom''\<rparr>,
            \<lparr>chunk_id = 0, content = PStr ''ok'', processing_time_ms = (5, 0),
              model_used = ''haiku'', error = None\<rparr>]
   \<and> sorted (map chunk_id
          [\<lparr>chunk_id = - 1, content = PNone, processing_time_ms = (0, 0),
              model_used = ''haiku'', error = Some ''boom''\<rparr>,
            \<lparr>chunk_id = 0, content = PStr ''ok'', processing_time_ms = (5, 0),
              model_used = ''haiku'', error = None\<rparr>])"
proof (intro conjI)
  show "process_chunks_async (example_manager (Some worker_bad_str)) example_repr example_clock
      example_chunks ''why''
     = Inr [\<lparr>chunk_id = 0, content = PStr ''ok'', processing_time_ms = (5, 0),
              model_used = ''haiku'', error = None\<rparr>,
            \<lparr>chunk_id = - 1, content = PNone, processing_time_ms = (0, 0),
              model_used = ''haiku'', error = Some ''boom''\<rparr>]"
    by (simp add: process_chunks_async_collect example_pool example_tasks
          process_chunk_async_def single_bad_str example_clock_def failed_result_def)
       (simp add: example_manager_def)
  show "process_chunks_sync (example_manager (Some worker_bad_str)) example_repr example_clock
        [1, 0] example_chunks ''why''
     = Inr [\<lparr>chunk_id = - 1, content = PNone, processing_time_ms = (0, 0),
              model_used = ''haiku'', error = Some ''boom''\<rparr>,
            \<lparr>chunk_id = 0, content = PStr ''ok'', processing_time_ms = (5, 0),
              model_used = ''haiku'', error = None\<rparr>]"
    by (rule sync_bad_str)
  show "process_chunks_sync (example_manager (Some worker_bad_str)) example_repr example_clock
        [0, 1] example_chunks ''why''
     = Inr [\<lparr>chunk_id = - 1, content = PNone, processing_time_ms = (0, 0),
              model_used = ''haiku'', error = Some ''boom''\<rparr>,
            \<lparr>chunk_id = 0, content = PStr ''ok'', processing_time_ms = (5, 0),
              model_used = ''haiku'', error = None\<rparr>]"
    by (rule sync_bad_str_in_order)
qed simp_all

section \<open>Properties: what the loop appends\<close>

lemma collect_settle:
  "collect fs acc = Inr rs \<Longrightarrow> rs = acc @ map settle fs"
proof (induction fs acc rule: collect.induct)
  case (3 e fs results)
  then show ?case by (cases "str_exc e") (auto simp: settle_def)
qed (auto simp: settle_def)

lemma collect_settles:
  "list_all settles fs \<Longrightarrow> collect fs acc = Inr (acc @ map settle fs)"
proof (induction fs acc rule: collect.induct)
  case (3 e fs results)
  then show ?case by (cases "str_exc e") (auto simp: settle_def settles_def str_ok_def)
qed (auto simp: settle_def settles_def)

lemma chunk_id_settle:
  "chunk_id (settle (process_single_chunk m repr (clock (task_id task)) task)) =
     expected_id m repr clock task"
  by (cases "process_single_chunk m repr (clock (task_id task)) task")
     (auto simp: settle_def expected_id_def failed_result_def process_single_chunk_id
           split: sum.splits)

lemma chunk_id_settle_all:
  "map (chunk_id \<circ> settle) (submit_all m repr clock tasks) = map (expected_id m repr clock) tasks"
  by (simp add: submit_all_def chunk_id_settle)

lemma sync_ids:
  assumes perm: "mset order = mset [0..<length chunks]" and mc: "0 < max_concurrent m"
    and ret: "process_chunks_sync m repr clock order chunks q = Inr rs"
  shows "mset (map chunk_id rs) = mset (map (expected_id m repr clock) (chunk_tasks chunks q))"
proof -
  let ?fs = "submit_all m repr clock (chunk_tasks chunks q)"
  from ret obtain results where
    c: "collect (as_completed ?fs order) [] = Inr results"
    and rs: "rs = sort_key chunk_id results"
    using mc by (auto simp: sync_unfold split: sum.splits)
  have "results = map settle (as_completed ?fs order)"
    using collect_settle[OF c] by simp
  then have "mset results = image_mset settle (mset (as_completed ?fs order))"
    by simp
  also have "mset (as_completed ?fs order) = mset ?fs"
    by (rule mset_as_completed) (simp add: perm length_submit_all length_chunk_tasks)
  finally have "mset (map chunk_id rs) = mset (map (chunk_id \<circ> settle) ?fs)"
    using rs by (simp add: image_mset.compositionality)
  then show ?thesis
    by (simp only: chunk_id_settle_all)
qed

lemma single_settles:
  "reportable_worker (llm_query_fn m) \<Longrightarrow> settles (process_single_chunk m repr ms task)"
  by (auto simp: process_single_chunk_def reportable_worker_def str_ok2_def settles_def
           split: option.splits outcome.splits sum.splits)

lemma single_error:
  "(error (settle (process_single_chunk m repr ms task)) \<noteq> None) = worker_raises m repr task"
  by (auto simp: process_single_chunk_def worker_raises_def settle_def failed_result_def
           split: option.splits outcome.splits sum.splits)

lemma single_folded: "folded (settle (process_single_chunk m repr ms task))"
  by (auto simp: process_single_chunk_def folded_def settle_def failed_result_def
           split: option.splits outcome.splits sum.splits)

lemma submit_all_settles:
  "reportable_worker (llm_query_fn m) \<Longrightarrow> list_all settles (submit_all m repr clock tasks)"
  by (simp add: submit_all_def list_all_iff single_settles)

lemma submit_all_folded: "list_all folded (map settle (submit_all m repr clock tasks))"
  by (simp add: submit_all_def list_all_iff single_folded)

lemma submit_all_errors:
  "length (filter (\<lambda>r. error r \<noteq> None) (map settle (submit_all m repr clock tasks))) =
   length (filter (worker_raises m repr) tasks)"
proof -
  have "(\<lambda>task. error (settle (process_single_chunk m repr (clock (task_id task)) task)) \<noteq> None)
          = worker_raises m repr"
    by (rule ext) (rule single_error)
  then show ?thesis
    by (simp add: submit_all_def filter_map comp_def del: not_None_eq)
qed

lemma mset_filter_length:
  "mset xs = mset ys \<Longrightarrow> length (filter P xs) = length (filter P ys)"
  by (metis mset_filter size_mset)

lemma mset_list_all: "mset xs = mset ys \<Longrightarrow> list_all P xs = list_all P ys"
  by (metis list_all_iff mset_eq_setD)

lemma sync_reportable:
  assumes perm: "mset order = mset [0..<length chunks]" and mc: "0 < max_concurrent m"
    and rep: "reportable_worker (llm_query_fn m)"
  shows "\<exists>rs. process_chunks_sync m repr clock order chunks q = Inr rs
            \<and> mset rs = mset (map settle (submit_all m repr clock (chunk_tasks chunks q)))"
proof -
  let ?fs = "submit_all m repr clock (chunk_tasks chunks q)"
  have m: "mset (as_completed ?fs order) = mset ?fs"
    by (rule mset_as_completed) (simp add: perm length_submit_all length_chunk_tasks)
  have "list_all settles ?fs"
    using rep by (rule submit_all_settles)
  then have "list_all settles (as_completed ?fs order)"
    using mset_list_all[OF m] by simp
  then have "collect (as_completed ?fs order) [] = Inr (map settle (as_completed ?fs order))"
    using collect_settles[of "as_completed ?fs order" "[]"] by simp
  then have "process_chunks_sync m repr clock order chunks q =
               Inr (sort_key chunk_id (map settle (as_completed ?fs order)))"
    using mc by (simp add: sync_unfold)
  moreover have "mset (sort_key chunk_id (map settle (as_completed ?fs order))) =
                 mset (map settle ?fs)"
    using m by simp
  ultimately show ?thesis by blast
qed

section \<open>The chunk id of a Result\<close>

text \<open>
  C3, as the code has it. Every Result that \<open>_process_single_chunk\<close> returns, from its
  success branch and from its exception branch alike, carries the id of its task. Whenever
  \<open>process_chunks_sync\<close> returns, each task has exactly one Result, whose chunk id is the
  id of the task when the call for the task returned and \<open>-1\<close> when its future failed
  (as multisets, since the sort moves the Results). When every exception the worker raises
  has a string form, no future fails and the i-th Result carries the id of the i-th task.
\<close>

theorem result_chunk_id:
  assumes perm: "mset order = mset [0..<length chunks]" and mc: "0 < max_concurrent m"
  shows "(\<forall>r. process_single_chunk m repr ms task = Inr r \<longrightarrow> chunk_id r = task_id task)
       \<and> (\<forall>rs. process_chunks_sync m repr clock order chunks q = Inr rs \<longrightarrow>
            mset (map chunk_id rs) = mset (map (expected_id m repr clock) (chunk_tasks chunks q)))
       \<and> (plain_worker (llm_query_fn m) \<longrightarrow>
            (\<exists>rs. process_chunks_sync m repr clock order chunks q = Inr rs
                 \<and> map chunk_id rs = map task_id (chunk_tasks chunks q)))"
proof (intro conjI allI impI)
  fix r assume "process_single_chunk m repr ms task = Inr r"
  then show "chunk_id r = task_id task" by (rule process_single_chunk_id)
next
  fix rs assume "process_chunks_sync m repr clock order chunks q = Inr rs"
  with perm mc show "mset (map chunk_id rs) =
      mset (map (expected_id m repr clock) (chunk_tasks chunks q))"
    by (rule sync_ids)
next
  assume plain: "plain_worker (llm_query_fn m)"
  show "\<exists>rs. process_chunks_sync m repr clock order chunks q = Inr rs
                 \<and> map chunk_id rs = map task_id (chunk_tasks chunks q)"
    using sync_plain[OF perm mc plain] chunk_id_submit_all[OF plain] by blast
qed


theorem result_chunk_id_witness:
  "mset [1, 0] = mset [0..<length example_chunks]
   \<and> 0 < max_concurrent (example_manager (Some worker_plain))
   \<and> plain_worker (llm_query_fn (example_manager (Some worker_plain)))
   \<and> process_single_chunk (example_manager (Some worker_plain)) example_repr (5, 0) task1
       = Inr \<lparr>chunk_id = 1, content = PNone, processing_time_ms = (5, 0),
               model_used = ''haiku'', error = Some ''boom''\<rparr>
   \<and> (\<exists>rs. process_chunks_sync (example_manager (Some worker_plain)) example_repr
               example_clock [1, 0] example_chunks ''why'' = Inr rs
            \<and> map chunk_id rs = [0, 1]
            \<and> map task_id (chunk_tasks example_chunks ''why'') = [0, 1])"
proof -
  from result_chunk_id[OF example_perm example_pool, of "Some worker_plain" example_repr
      "(5, 0)" task1 example_clock "''why''"]
  have "\<exists>rs. process_chunks_sync (example_manager (Some worker_plain)) example_repr
               example_clock [1, 0] example_chunks ''why'' = Inr rs
            \<and> map chunk_id rs = map task_id (chunk_tasks example_chunks ''why'')"
    using worker_plain_is_plain by blast
  moreover have "map task_id (chunk_tasks example_chunks ''why'') = [0, 1]"
    by (simp add: example_tasks task0_def task1_def)
  ultimately show ?thesis
    using example_perm example_pool worker_plain_is_plain single_plain(2)[of "(5, 0)"] by auto
qed

text \<open>
  C3 as the claim states it fails in the exception branch of the collecting loop. The
  worker raises on chunk 1 an exception whose \<open>__str__\<close> raises, the future of task 1
  fails, and the Result produced for it carries \<open>-1\<close>: no Result carries the id 1.
\<close>

theorem failed_future_id_counterexample:
  "process_chunks_sync (example_manager (Some worker_bad_str)) example_repr example_clock
      [1, 0] example_chunks ''why''
     = Inr [\<lparr>chunk_id = - 1, content = PNone, processing_time_ms = (0, 0),
              model_used = ''haiku'', error = Some ''boom''\<rparr>,
            \<lparr>chunk_id = 0, content = PStr ''ok'', processing_time_ms = (5, 0),
              model_used = ''haiku'', error = None\<rparr>]
   \<and> chunk_tasks example_chunks ''why'' ! 1 = task1
   \<and> task_id task1 = 1
   \<and> task_id task1 \<notin> set (map chunk_id
        [\<lparr>chunk_id = - 1, content = PNone, processing_time_ms = (0, 0),
              model_used = ''haiku'', error = Some ''boom''\<rparr>,
            \<lparr>chunk_id = 0, content = PStr ''ok'', processing_time_ms = (5, 0),
              model_used = ''haiku'', error = None\<rparr>])"
proof (intro conjI)
  show "process_chunks_sync (example_manager (Some worker_bad_str)) example_repr example_clock
      [1, 0] example_chunks ''why''
     = Inr [\<lparr>chunk_id = - 1, content = PNone, processing_time_ms = (0, 0),
              model_used = ''haiku'', error = Some ''boom''\<rparr>,
            \<lparr>chunk_id = 0, content = PStr ''ok'', processing_time_ms = (5, 0),
              model_used = ''haiku'', error = None\<rparr>]"
    by (rule sync_bad_str)
qed (simp_all add: example_tasks task1_def)

section \<open>Failures are folded into Results\<close>

text \<open>
  How far the two handlers reach. Let every exception the worker raises have a string
  form, or raise from \<open>__str__\<close> an exception that has one. Then neither dispatch path
  raises: each returns as many Results as there are chunks, every Result with an error has
  the content \<open>None\<close>, and (on the asynchronous path unless the pool was shut down) the
  Results with an error are as many as the tasks on which the worker raised.
\<close>

lemma failures_folded:
  assumes perm: "mset order = mset [0..<length chunks]" and mc: "0 < max_concurrent m"
    and rep: "reportable_worker (llm_query_fn m)"
  shows "(\<exists>rs. process_chunks_sync m repr clock order chunks q = Inr rs
            \<and> length rs = length chunks
            \<and> list_all folded rs
            \<and> length (filter (\<lambda>r. error r \<noteq> None) rs) =
                length (filter (worker_raises m repr) (chunk_tasks chunks q)))
       \<and> (\<exists>rs. process_chunks_async m repr clock chunks q = Inr rs
            \<and> length rs = length chunks
            \<and> list_all folded rs
            \<and> (\<not> executor_shutdown m \<longrightarrow>
                  length (filter (\<lambda>r. error r \<noteq> None) rs) =
                  length (filter (worker_raises m repr) (chunk_tasks chunks q))))"
proof
  let ?fs = "submit_all m repr clock (chunk_tasks chunks q)"
  from sync_reportable[OF perm mc rep] obtain rs where
    ret: "process_chunks_sync m repr clock order chunks q = Inr rs"
    and m: "mset rs = mset (map settle ?fs)"
    by blast
  have "length rs = length chunks"
    using m by (metis length_map length_submit_all length_chunk_tasks size_mset)
  moreover have "list_all folded rs"
    using mset_list_all[OF m] submit_all_folded by simp
  moreover have "length (filter (\<lambda>r. error r \<noteq> None) rs) =
                length (filter (worker_raises m repr) (chunk_tasks chunks q))"
    using mset_filter_length[OF m] submit_all_errors by simp
  ultimately show "\<exists>rs. process_chunks_sync m repr clock order chunks q = Inr rs
            \<and> length rs = length chunks
            \<and> list_all folded rs
            \<and> length (filter (\<lambda>r. error r \<noteq> None) rs) =
                length (filter (worker_raises m repr) (chunk_tasks chunks q))"
    using ret by blast
next
  let ?fs = "submit_all m repr clock (chunk_tasks chunks q)"
  show "\<exists>rs. process_chunks_async m repr clock chunks q = Inr rs
            \<and> length rs = length chunks
            \<and> list_all folded rs
            \<and> (\<not> executor_shutdown m \<longrightarrow>
                  length (filter (\<lambda>r. error r \<noteq> None) rs) =
                  length (filter (worker_raises m repr) (chunk_tasks chunks q)))"
  proof (cases "executor_shutdown m")
    case True
    then show ?thesis
      using async_shutdown[OF mc]
      by (simp add: list_all_iff folded_def failed_result_def)
  next
    case False
    then have "map (process_chunk_async m repr clock) (chunk_tasks chunks q) = ?fs"
      by (simp add: process_chunk_async_def submit_all_def)
    moreover have "collect ?fs [] = Inr (map settle ?fs)"
      using collect_settles[OF submit_all_settles[OF rep], of repr clock "chunk_tasks chunks q" "[]"]
      by simp
    ultimately have "process_chunks_async m repr clock chunks q = Inr (map settle ?fs)"
      using mc by (simp add: process_chunks_async_collect)
    then show ?thesis
      using submit_all_folded submit_all_errors
      by (simp add: length_submit_all length_chunk_tasks)
  qed
qed


lemma worker_bad_str_reportable:
  "reportable_worker (llm_query_fn (example_manager (Some worker_bad_str)))"
  by (simp add: reportable_worker_def worker_bad_str_def str_ok2_def str_ok_def
        example_manager_def)

lemma failures_folded_example:
  "mset [1, 0] = mset [0..<length example_chunks]
   \<and> 0 < max_concurrent (example_manager (Some worker_bad_str))
   \<and> reportable_worker (llm_query_fn (example_manager (Some worker_bad_str)))
   \<and> process_chunks_sync (example_manager (Some worker_bad_str)) example_repr example_clock
        [1, 0] example_chunks ''why''
       = Inr [\<lparr>chunk_id = - 1, content = PNone, processing_time_ms = (0, 0),
                model_used = ''haiku'', error = Some ''boom''\<rparr>,
              \<lparr>chunk_id = 0, content = PStr ''ok'', processing_time_ms = (5, 0),
                model_used = ''haiku'', error = None\<rparr>]
   \<and> list_all folded
        [\<lparr>chunk_id = - 1, content = PNone, processing_time_ms = (0, 0),
                model_used = ''haiku'', error = Some ''boom''\<rparr>,
              \<lparr>chunk_id = 0, content = PStr ''ok'', processing_time_ms = (5, 0),
                model_used = ''haiku'', error = None\<rparr>]
   \<and> length (filter (worker_raises (example_manager (Some worker_bad_str)) example_repr)
        (chunk_tasks example_chunks ''why'')) = 1"
proof -
  let ?m = "example_manager (Some worker_bad_str)"
  let ?out = "[\<lparr>chunk_id = - 1, content = PNone, processing_time_ms = (0, 0),
                model_used = ''haiku'', error = Some ''boom''\<rparr>,
              \<lparr>chunk_id = 0, content = PStr ''ok'', processing_time_ms = (5, 0),
                model_used = ''haiku'', error = None\<rparr>]"
  from failures_folded[OF example_perm example_pool worker_bad_str_reportable,
      of example_repr example_clock "''why''"]
  obtain rs where
    ret: "process_chunks_sync ?m example_repr example_clock [1, 0] example_chunks ''why''
            = Inr rs"
    and fold: "list_all folded rs"
    and count: "length (filter (\<lambda>r. error r \<noteq> None) rs) =
                length (filter (worker_raises ?m example_repr)
                          (chunk_tasks example_chunks ''why''))"
    by blast
  have rs: "rs = ?out"
    using ret sync_bad_str by simp
  have "list_all folded ?out"
    using fold rs by simp
  moreover have "length (filter (worker_raises ?m example_repr)
                          (chunk_tasks example_chunks ''why'')) = 1"
    using count rs by simp
  ultimately show ?thesis
    using example_perm example_pool worker_bad_str_reportable sync_bad_str by blast
qed

text \<open>
  C2. The property: for every chunk sequence, query and worker, also one that raises,
  dispatch never raises to the caller; every failure of a task is folded into a Result
  with an error and no content, and the call returns a full sequence of Results. The code
  does not have it: both handlers catch the exception and then evaluate \<open>str(e)\<close> inside
  the handler, unguarded. On two chunks, the worker raises on every prompt an exception
  whose \<open>__str__\<close> raises an exception whose \<open>__str__\<close> raises again. The handler of
  \<open>_process_single_chunk\<close> fails on the first conversion, the handler of the collecting
  loop on the second, and the last exception reaches the caller of \<open>process_chunks_sync\<close>,
  and of \<open>process_chunks_async\<close> alike: no Result sequence is returned.
\<close>

theorem dispatch_raises_counterexample:
  "process_chunks_sync (example_manager (Some worker_bad_twice)) example_repr example_clock
      [1, 0] example_chunks ''why''
     = Inl (Exc ''boom'')
   \<and> process_chunks_sync (example_manager (Some worker_bad_twice)) example_repr example_clock
      [0, 1] example_chunks ''why''
     = Inl (Exc ''boom'')
   \<and> process_chunks_async (example_manager (Some worker_bad_twice)) example_repr example_clock
      example_chunks ''why''
     = Inl (Exc ''boom'')"
proof (intro conjI)
  show "process_chunks_sync (example_manager (Some worker_bad_twice)) example_repr
      example_clock [1, 0] example_chunks ''why'' = Inl (Exc ''boom'')"
    by (simp add: sync_unfold example_pool example_tasks submit_all_def as_completed_def)
       (simp add: process_single_chunk_def worker_bad_twice_def example_manager_def)
  show "process_chunks_sync (example_manager (Some worker_bad_twice)) example_repr
      example_clock [0, 1] example_chunks ''why'' = Inl (Exc ''boom'')"
    by (simp add: sync_unfold example_pool example_tasks submit_all_def as_completed_def)
       (simp add: process_single_chunk_def worker_bad_twice_def example_manager_def)
  show "process_chunks_async (example_manager (Some worker_bad_twice)) example_repr
      example_clock example_chunks ''why'' = Inl (Exc ''boom'')"
    by (simp add: process_chunks_async_collect example_pool example_tasks
          process_chunk_async_def)
       (simp add: process_single_chunk_def worker_bad_twice_def example_manager_def)
qed

section \<open>A manager without a worker\<close>




section \<open>The prompt\<close>

lemma length_preamble: "length (preamble q i) \<le> 76 + query_length q + length (str_int i)"
  by (simp add: preamble_def query_length_def truthy_def split: option.splits)

lemma length_closing: "length (closing q) \<le> 80"
  by (simp add: closing_def truthy_def split: option.splits)

text \<open>
  C9. The prompt is a function of the task: a preamble fixed by the query and the task
  id, then the first 10000 characters of the payload's string form, then a closing
  sentence fixed by the presence of a query. Its length is at most 10156 plus the
  lengths of the query and of the printed task id, whatever the size of the payload.
\<close>

theorem prompt_shape:
  "build_prompt repr task =
     preamble (query task) (task_id task)
     @ take 10000 (py_str repr (task_content task))
     @ closing (query task)
   \<and> length (build_prompt repr task) \<le>
       10000 + 156 + query_length (query task) + length (str_int (task_id task))"
proof -
  have shape: "build_prompt repr task =
     preamble (query task) (task_id task)
     @ take 10000 (py_str repr (task_content task))
     @ closing (query task)"
    by (simp add: build_prompt_def preamble_def closing_def split: option.splits)
  have "length (take 10000 (py_str repr (task_content task))) \<le> 10000"
    by simp
  then have "length (build_prompt repr task) \<le>
       10000 + 156 + query_length (query task) + length (str_int (task_id task))"
    using length_preamble[of "query task" "task_id task"] length_closing[of "query task"]
    by (simp only: shape length_append)
  with shape show ?thesis by blast
qed

theorem prompt_shape_witness:
  "build_prompt example_repr task1 =
     ''Process this chunk of data to answer the following query:\<newline>\<newline>Query: why\<newline>\<newline>Chunk 1:\<newline>beta\<newline>\<newline>Provide a concise response focusing only on information relevant to the query.''
   \<and> length (build_prompt example_repr task1) = 164"
proof -
  have "preamble (query task1) (task_id task1) =
          ''Process this chunk of data to answer the following query:\<newline>\<newline>Query: why\<newline>\<newline>Chunk 1:\<newline>''"
    by (simp add: preamble_def truthy_def task1_def str_int_small)
  moreover have "closing (query task1) =
          ''\<newline>\<newline>Provide a concise response focusing only on information relevant to the query.''"
    by (simp add: closing_def truthy_def task1_def)
  moreover have "py_str example_repr (task_content task1) = ''beta''"
    by (simp add: py_str_def task1_def)
  ultimately show ?thesis
    using prompt_shape[of example_repr task1]
    by (simp add: query_length_def task1_def str_int_small)
qed

section \<open>The aggregated reply\<close>



lemma py_str_text: "is_str v \<Longrightarrow> py_str repr v = text_of v"
  by (cases v) (simp_all add: py_str_def text_of_def)

text \<open>
  C6. When the content of every Result without an error is a string, the aggregated
  content is the text of the blocks \<open>[Chunk id]:\<close>, newline, content, of the Results
  without an error, in order, joined by two newlines. Results with an error have no block.
\<close>

theorem aggregate_strings:
  assumes "list_all (\<lambda>r. is_str (content r)) (filter (\<lambda>r. error r = None) rs)"
  shows "aggregated (aggregate_results repr rs) =
           PStr (join ''\<newline>\<newline>'' (map chunk_block (filter (\<lambda>r. error r = None) rs)))"
proof -
  have blocks:
    "map (\<lambda>r. ''[Chunk '' @ str_int (chunk_id r) @ '']:\<newline>'' @ py_str repr (content r))
         (filter (\<lambda>r. error r = None) rs) =
     map chunk_block (filter (\<lambda>r. error r = None) rs)"
    using assms by (simp add: list_all_iff chunk_block_def py_str_text)
  have "aggregated (aggregate_results repr rs) =
        PStr (join ''\<newline>\<newline>''
          (map (\<lambda>r. ''[Chunk '' @ str_int (chunk_id r) @ '']:\<newline>'' @ py_str repr (content r))
               (filter (\<lambda>r. error r = None) rs)))"
    using assms by (simp add: aggregate_results_def Let_def)
  then show ?thesis
    by (simp only: blocks)
qed

theorem aggregate_strings_witness:
  "list_all (\<lambda>r. is_str (content r)) (filter (\<lambda>r. error r = None) example_results)
   \<and> aggregated (aggregate_results example_repr example_results) =
       PStr ''[Chunk 0]:\<newline>a\<newline>\<newline>[Chunk 2]:\<newline>b''"
proof -
  have strs: "list_all (\<lambda>r. is_str (content r)) (filter (\<lambda>r. error r = None) example_results)"
    by (simp add: example_results_def)
  from aggregate_strings[OF strs, of example_repr]
  have "aggregated (aggregate_results example_repr example_results) =
       PStr ''[Chunk 0]:\<newline>a\<newline>\<newline>[Chunk 2]:\<newline>b''"
    by (simp add: example_results_def chunk_block_def text_of_def str_int_small)
  with strs show ?thesis by blast
qed

section \<open>Determinism of dispatch followed by aggregation\<close>

lemma untimed_single:
  "untimed (projr (process_single_chunk m repr ms task)) =
   untimed (projr (process_single_chunk m repr ms' task))"
  by (auto simp: process_single_chunk_def untimed_def split: option.splits outcome.splits sum.splits)

lemma untimed_submit_all:
  "map untimed (map projr (submit_all m repr clock tasks)) =
   map untimed (map projr (submit_all m repr clock' tasks))"
  using untimed_single by (simp add: submit_all_def)

lemma untimed_fields:
  "chunk_id (untimed r) = chunk_id r" "content (untimed r) = content r"
  "error (untimed r) = error r" "model_used (untimed r) = model_used r"
  by (simp_all add: untimed_def)

lemma aggregate_untimed:
  "without_timing (aggregate_results repr (map untimed rs)) =
   without_timing (aggregate_results repr rs)"
  by (simp add: aggregate_results_def Let_def without_timing_def filter_map comp_def
        list.pred_map untimed_fields del: not_None_eq)

lemma example_perm2: "mset [0, 1] = mset [0..<length example_chunks]"
  by (simp add: example_chunks_def upt_rec)

lemma single_bad_each:
  "process_single_chunk (example_manager (Some worker_bad_each)) example_repr ms task0 =
     Inl (Exc ''zero'')"
  "process_single_chunk (example_manager (Some worker_bad_each)) example_repr ms task1 =
     Inl (Exc ''one'')"
  by (simp_all add: process_single_chunk_def example_manager_def worker_bad_each_def
        example_prompts)

lemma sync_bad_each:
  "process_chunks_sync (example_manager (Some worker_bad_each)) example_repr example_clock
      [1, 0] example_chunks ''why''
     = Inr [failed_result ''one'', failed_result ''zero'']"
  "process_chunks_sync (example_manager (Some worker_bad_each)) example_repr example_clock
      [0, 1] example_chunks ''why''
     = Inr [failed_result ''zero'', failed_result ''one'']"
  by (simp_all add: sync_unfold example_pool example_tasks submit_all_def single_bad_each
        as_completed_def)
     (simp_all add: failed_result_def)

lemma async_bad_each:
  "process_chunks_async (example_manager (Some worker_bad_each)) example_repr example_clock
      example_chunks ''why''
     = Inr [failed_result ''zero'', failed_result ''one'']"
  by (simp add: process_chunks_async_collect example_pool example_tasks
        process_chunk_async_def single_bad_each)
     (simp add: example_manager_def)

lemma aggregate_failed:
  "aggregate_results repr [failed_result s, failed_result t] =
     \<lparr>aggregated = PStr [], chunks_processed = 0, chunks_failed = 2,
      total_processing_time_ms = (0, 0), errors = [(- 1, Some s), (- 1, Some t)]\<rparr>"
  by (simp add: aggregate_results_def Let_def failed_result_def py_sum_small)

text \<open>
  Where no future fails the replies agree. When every exception the worker raises has a
  string form, two runs of dispatch followed by aggregation on the same chunks and query,
  with the same worker, return replies that are equal once the timing field is blanked,
  whatever the two completion orders and the measured durations.
\<close>

lemma dispatch_deterministic:
  assumes perm1: "mset order1 = mset [0..<length chunks]"
    and perm2: "mset order2 = mset [0..<length chunks]"
    and mc: "0 < max_concurrent m"
    and plain: "plain_worker (llm_query_fn m)"
  shows "\<exists>reply1 reply2.
           dispatch_and_aggregate m repr clock1 order1 chunks q = Inr reply1
         \<and> dispatch_and_aggregate m repr clock2 order2 chunks q = Inr reply2
         \<and> without_timing reply1 = without_timing reply2"
proof -
  let ?rs1 = "map projr (submit_all m repr clock1 (chunk_tasks chunks q))"
  let ?rs2 = "map projr (submit_all m repr clock2 (chunk_tasks chunks q))"
  have "map untimed ?rs1 = map untimed ?rs2"
    by (rule untimed_submit_all)
  then have "without_timing (aggregate_results repr ?rs1) =
             without_timing (aggregate_results repr ?rs2)"
    by (metis aggregate_untimed)
  then show ?thesis
    using sync_plain[OF perm1 mc plain, of repr clock1 q]
      sync_plain[OF perm2 mc plain, of repr clock2 q]
    by (simp add: dispatch_and_aggregate_def)
qed


lemma dispatch_deterministic_example:
  "mset [1, 0] = mset [0..<length example_chunks]
   \<and> mset [0, 1] = mset [0..<length example_chunks]
   \<and> 0 < max_concurrent (example_manager (Some worker_plain))
   \<and> plain_worker (llm_query_fn (example_manager (Some worker_plain)))
   \<and> dispatch_and_aggregate (example_manager (Some worker_plain)) example_repr example_clock
        [1, 0] example_chunks ''why''
       = Inr \<lparr>aggregated = PStr ''[Chunk 0]:\<newline>ok'', chunks_processed = 1, chunks_failed = 1,
               total_processing_time_ms = (10, 0), errors = [(1, Some ''boom'')]\<rparr>
   \<and> (\<exists>reply2. dispatch_and_aggregate (example_manager (Some worker_plain)) example_repr
                   example_clock2 [0, 1] example_chunks ''why'' = Inr reply2
              \<and> without_timing reply2 =
                  \<lparr>aggregated = PStr ''[Chunk 0]:\<newline>ok'', chunks_processed = 1,
                   chunks_failed = 1, total_processing_time_ms = (0, 0),
                   errors = [(1, Some ''boom'')]\<rparr>)"
proof -
  let ?m = "example_manager (Some worker_plain)"
  have first: "dispatch_and_aggregate ?m example_repr example_clock [1, 0] example_chunks ''why''
       = Inr \<lparr>aggregated = PStr ''[Chunk 0]:\<newline>ok'', chunks_processed = 1, chunks_failed = 1,
               total_processing_time_ms = (10, 0), errors = [(1, Some ''boom'')]\<rparr>"
    by (simp only: dispatch_and_aggregate_def sync_plain_example sum.case)
       (simp add: aggregate_results_def Let_def py_str_def str_int_small py_sum_small)
  from dispatch_deterministic[OF example_perm example_perm2 example_pool
      worker_plain_is_plain, of example_repr example_clock "''why''" example_clock2]
  obtain reply1 reply2 where
    r1: "dispatch_and_aggregate ?m example_repr example_clock [1, 0] example_chunks ''why''
           = Inr reply1"
    and r2: "dispatch_and_aggregate ?m example_repr example_clock2 [0, 1] example_chunks ''why''
           = Inr reply2"
    and eq: "without_timing reply1 = without_timing reply2"
    by blast
  from r1 first have "reply1 = \<lparr>aggregated = PStr ''[Chunk 0]:\<newline>ok'', chunks_processed = 1,
      chunks_failed = 1, total_processing_time_ms = (10, 0), errors = [(1, Some ''boom'')]\<rparr>"
    by simp
  with eq have "without_timing reply2 =
      \<lparr>aggregated = PStr ''[Chunk 0]:\<newline>ok'', chunks_processed = 1,
       chunks_failed = 1, total_processing_time_ms = (0, 0), errors = [(1, Some ''boom'')]\<rparr>"
    by (simp add: without_timing_def)
  with r2 show ?thesis
    using example_perm example_perm2 example_pool worker_plain_is_plain first by blast
qed

text \<open>
  C8. The property: two runs of dispatch followed by \<open>aggregate_results\<close> on the same
  chunks and the same query, with the same deterministic worker, give replies that are
  identical but for the timing fields, whatever the completion order of the workers. The
  code does not have it when two futures fail. On each of two chunks the worker raises an
  exception whose \<open>__str__\<close> raises, with a different message per chunk. Both Results get
  the id \<open>-1\<close>, the sort by \<open>chunk_id\<close> cannot tell them apart and, being stable, leaves
  them in completion order: the \<open>errors\<close> of the two replies list the same entries in
  opposite orders. \<open>process_chunks_async\<close> returns on the same input the same two Results
  in task order, which no completion order changes.
\<close>

theorem completion_order_counterexample:
  "mset [1, 0] = mset [0..<length example_chunks]
   \<and> mset [0, 1] = mset [0..<length example_chunks]
   \<and> dispatch_and_aggregate (example_manager (Some worker_bad_each)) example_repr
        example_clock [1, 0] example_chunks ''why''
       = Inr \<lparr>aggregated = PStr [], chunks_processed = 0, chunks_failed = 2,
               total_processing_time_ms = (0, 0),
               errors = [(- 1, Some ''one''), (- 1, Some ''zero'')]\<rparr>
   \<and> dispatch_and_aggregate (example_manager (Some worker_bad_each)) example_repr
        example_clock [0, 1] example_chunks ''why''
       = Inr \<lparr>aggregated = PStr [], chunks_processed = 0, chunks_failed = 2,
               total_processing_time_ms = (0, 0),
               errors = [(- 1, Some ''zero''), (- 1, Some ''one'')]\<rparr>
   \<and> without_timing \<lparr>aggregated = PStr [], chunks_processed = 0, chunks_failed = 2,
               total_processing_time_ms = (0, 0),
               errors = [(- 1, Some ''one''), (- 1, Some ''zero'')]\<rparr>
     \<noteq> without_timing \<lparr>aggregated = PStr [], chunks_processed = 0, chunks_failed = 2,
               total_processing_time_ms = (0, 0),
               errors = [(- 1, Some ''zero''), (- 1, Some ''one'')]\<rparr>
   \<and> process_chunks_async (example_manager (Some worker_bad_each)) example_repr example_clock
        example_chunks ''why''
       = Inr [failed_result ''zero'', failed_result ''one'']
   \<and> aggregate_results example_repr [failed_result ''zero'', failed_result ''one'']
       = \<lparr>aggregated = PStr [], chunks_processed = 0, chunks_failed = 2,
          total_processing_time_ms = (0, 0),
          errors = [(- 1, Some ''zero''), (- 1, Some ''one'')]\<rparr>"
proof (intro conjI)
  show "process_chunks_async (example_manager (Some worker_bad_each)) example_repr example_clock
        example_chunks ''why''
       = Inr [failed_result ''zero'', failed_result ''one'']"
    by (rule async_bad_each)
  show "aggregate_results example_repr [failed_result ''zero'', failed_result ''one'']
       = \<lparr>aggregated = PStr [], chunks_processed = 0, chunks_failed = 2,
          total_processing_time_ms = (0, 0),
          errors = [(- 1, Some ''zero''), (- 1, Some ''one'')]\<rparr>"
    by (rule aggregate_failed)
  show "mset [1, 0] = mset [0..<length example_chunks]"
    by (rule example_perm)
  show "mset [0, 1] = mset [0..<length example_chunks]"
    by (rule example_perm2)
  show "dispatch_and_aggregate (example_manager (Some worker_bad_each)) example_repr
        example_clock [1, 0] example_chunks ''why''
       = Inr \<lparr>aggregated = PStr [], chunks_processed = 0, chunks_failed = 2,
               total_processing_time_ms = (0, 0),
               errors = [(- 1, Some ''one''), (- 1, Some ''zero'')]\<rparr>"
    by (simp only: dispatch_and_aggregate_def sync_bad_each sum.case aggregate_failed)
  show "dispatch_and_aggregate (example_manager (Some worker_bad_each)) example_repr
        example_clock [0, 1] example_chunks ''why''
       = Inr \<lparr>aggregated = PStr [], chunks_processed = 0, chunks_failed = 2,
               total_processing_time_ms = (0, 0),
               errors = [(- 1, Some ''zero''), (- 1, Some ''one'')]\<rparr>"
    by (simp only: dispatch_and_aggregate_def sync_bad_each sum.case aggregate_failed)
qed (simp add: without_timing_def)

section \<open>The token estimate\<close>

text \<open>
  Each constant is within half a unit in the last place of its literal: it is the
  nearest double.
\<close>

lemma nearest_doubles:
  "\<bar>13 * 2 ^ 52 - 10 * fst d1_3\<bar> < (5 :: int)"
  "\<bar>11 * 2 ^ 52 - 10 * fst d1_1\<bar> < (5 :: int)"
  "\<bar>14 * 2 ^ 52 - 10 * fst d1_4\<bar> < (5 :: int)"
  by (simp_all add: d1_3_def d1_1_def d1_4_def)

text \<open>
  The product is rounded after each multiplication. For 7500 words of code the estimate
  is 15014, while the exact product \<open>7500 * 1.3 * 1.1 * 1.4\<close> is 15015.
\<close>

lemma rounding_example:
  "token_formula 7500 True = 15014"
  "(7500 * 13 * 11 * 14) div 1000 = (15015 :: int)"
  by (simp_all add: token_formula_def fmul_def round53_def double_of_nat_def py_int_def Let_def
        d1_3_def d1_1_def d1_4_def bit_length_numeral)

lemma length_split_from:
  "length (split_from word cs) = count_starts (word = []) cs + (if word = [] then 0 else 1)"
  by (induction word cs rule: split_from.induct) auto

lemma length_py_split: "length (py_split contents) = word_count contents"
  by (simp add: py_split_def word_count_def length_split_from)

lemma distinct_code_indicators: "distinct code_indicators"
  by (simp add: code_indicators_def)

lemma marker_count_filter:
  "marker_count contents = length (filter (\<lambda>indicator. sublist indicator contents) code_indicators)"
  using distinct_code_indicators
  by (simp add: marker_count_def distinct_length_filter Int_def conj_commute)

lemma looks_like_code_markers: "looks_like_code contents = (3 \<le> marker_count contents)"
proof -
  have "sum_list (map (\<lambda>indicator. 1 :: int)
          (filter (\<lambda>indicator. sublist indicator contents) code_indicators)) =
        int (length (filter (\<lambda>indicator. sublist indicator contents) code_indicators))"
    by (simp add: sum_list_triv)
  also have "length (filter (\<lambda>indicator. sublist indicator contents) code_indicators) =
             card {m \<in> set code_indicators. sublist m contents}"
    using distinct_code_indicators by (simp add: distinct_length_filter Int_def conj_commute)
  finally show ?thesis
    by (simp add: looks_like_code_def marker_count_def)
qed

lemma bit_length_nonneg: "0 \<le> bit_length m"
  by (induction m rule: bit_length.induct) (subst bit_length.simps, simp)

lemma round53_nonneg: "0 \<le> m \<Longrightarrow> 0 \<le> fst (round53 m e)"
  by (auto simp: round53_def Let_def pos_imp_zdiv_nonneg_iff)

lemma fmul_nonneg: "0 \<le> fst x \<Longrightarrow> 0 \<le> fst y \<Longrightarrow> 0 \<le> fst (fmul x y)"
  by (simp add: fmul_def round53_nonneg)

lemma py_int_nonneg: "0 \<le> fst x \<Longrightarrow> 0 \<le> py_int x"
  by (simp add: py_int_def pos_imp_zdiv_nonneg_iff)

lemma token_formula_nonneg: "0 \<le> token_formula n code"
proof -
  have "0 \<le> fst (double_of_nat n)"
    by (simp add: double_of_nat_def round53_nonneg)
  then have "0 \<le> fst (fmul (fmul (fmul (double_of_nat n) d1_3) d1_1) (if code then d1_4 else d1_0))"
    by (intro fmul_nonneg) (simp_all add: d1_3_def d1_1_def d1_4_def d1_0_def)
  then show ?thesis
    by (simp add: token_formula_def Let_def py_int_nonneg)
qed

lemma utf8_ignore_invalid: "utf8_ignore [255, 255, 255, 255, 255, 255, 255, 255] = []"
  by simp

lemma looks_like_code_empty: "\<not> looks_like_code []"
  by (simp add: looks_like_code_def code_indicators_def)

lemma token_formula_zero: "token_formula 0 False = 0"
  by (simp add: token_formula_def fmul_def round53_def double_of_nat_def py_int_def Let_def
        d1_3_def d1_1_def d1_0_def bit_length_numeral)

lemma example_words: "word_count [123, 32, 125, 32, 40, 41] = 3"
  by (simp add: word_count_def is_space_def)

lemma example_markers: "marker_count [123, 32, 125, 32, 40, 41] = 3"
  by (simp add: marker_count_filter code_indicators_def sublist_code)

lemma token_formula_three: "token_formula 3 True = 6"
  by (simp add: token_formula_def fmul_def round53_def double_of_nat_def py_int_def Let_def
        d1_3_def d1_1_def d1_4_def bit_length_numeral)

text \<open>
  C7, as the code has it. The estimate of a text is the integer part of the
  double-precision product of the word count, 1.3, 1.1 and \<open>c\<close>, where the word count is
  the number of whitespace-delimited tokens and \<open>c\<close> is 1.4 when at least three distinct
  markers occur in the text and 1.0 otherwise; it is never negative. A file that opens
  is decoded with the undecodable bytes dropped and estimated from the decoded text;
  only a file whose \<open>open\<close> or \<open>read\<close> raises is estimated as its size divided by 4.
\<close>

theorem estimate_tokens_shape:
  "estimate_tokens_content contents =
     py_int (fmul (fmul (fmul (double_of_nat (word_count contents)) d1_3) d1_1)
                  (if 3 \<le> marker_count contents then d1_4 else d1_0))
   \<and> 0 \<le> estimate_tokens_content contents
   \<and> estimate_tokens_file (Readable bytes) =
       Inr (estimate_tokens_content (universal_newlines (utf8_ignore bytes)))
   \<and> estimate_tokens_file (Unreadable st_size) = Inr (int st_size div 4)"
  by (simp add: estimate_tokens_content_def token_formula_def Let_def length_py_split
        looks_like_code_markers token_formula_nonneg[unfolded token_formula_def Let_def]
        estimate_tokens_file_def)

text \<open>
  The code points below spell the text \<open>{ } ()\<close>: three words and three markers.
\<close>

theorem estimate_tokens_shape_witness:
  "word_count [123, 32, 125, 32, 40, 41] = 3
   \<and> marker_count [123, 32, 125, 32, 40, 41] = 3
   \<and> estimate_tokens_content [123, 32, 125, 32, 40, 41] = 6
   \<and> estimate_tokens_file (Unreadable 10) = Inr 2"
proof -
  have "py_int (fmul (fmul (fmul (double_of_nat 3) d1_3) d1_1) d1_4) = 6"
    using token_formula_three by (simp add: token_formula_def Let_def)
  with estimate_tokens_shape[of "[123, 32, 125, 32, 40, 41]" "[]" 10]
  show ?thesis
    by (simp add: example_words example_markers)
qed

text \<open>
  C7 as the claim states it fails on a file that cannot be decoded. Eight bytes \<open>0xFF\<close>
  are not UTF-8; the file opens, every byte is dropped, the text is empty and the
  estimate is 0, not the size divided by 4, which is 2.
\<close>

theorem undecodable_file_counterexample:
  "utf8_ignore [255, 255, 255, 255, 255, 255, 255, 255] = []
   \<and> estimate_tokens_file (Readable [255, 255, 255, 255, 255, 255, 255, 255]) = Inr 0
   \<and> int (length [255, 255, 255, 255, 255, 255, 255, 255 :: nat]) div 4 = 2"
  by (simp add: estimate_tokens_file_def estimate_tokens_content_def py_split_def
        utf8_ignore_invalid looks_like_code_empty token_formula_zero)


end
